theory Spec2Isabelle
  imports Complex_Main
begin

section \<open>Battery indicator widget: a shallow embedding of \<open>Battery-widget.py\<close>\<close>

text \<open>
  The program is one class, \<open>BatteryWidget\<close>, driven by the toolkit's event loop: a one
  second timer calls \<open>update_battery_info\<close>, the animation clock advances two property
  animations, \<open>paintEvent\<close> draws the current state, \<open>mousePressEvent\<close> closes the widget.
  The widget object is a record; every method takes the record and returns the updated one.
  Python floats are read as real numbers, Python integers as \<open>int\<close>/\<open>nat\<close>.
  The toolkit classes the program uses (\<open>QPropertyAnimation\<close>, \<open>QSequentialAnimationGroup\<close>,
  \<open>QRect\<close>, \<open>QRectF\<close>, \<open>QPainter\<close>) are not part of the program; their operations are written
  out below as the toolkit documents them, each next to the call of the source that uses it.
\<close>

subsection \<open>Python values\<close>

text \<open>\<open>int(x)\<close> on a float truncates towards zero.\<close>

definition py_int :: "real \<Rightarrow> int" where
  "py_int x = (if x < 0 then \<lceil>x\<rceil> else \<lfloor>x\<rfloor>)"

text \<open>
  A Python value that is \<open>True\<close>, \<open>False\<close> or \<open>None\<close> (\<open>power_plugged\<close> is \<open>None\<close> when the
  platform cannot tell); \<open>truthy\<close> is its value in a condition.
\<close>

type_synonym py_flag = "bool option"

definition truthy :: "py_flag \<Rightarrow> bool" where
  "truthy v = (v = Some True)"

text \<open>\<open>str(n)\<close> for an integer, as the f-string \<open>f"{int(percent)}%"\<close> formats it.\<close>

definition digit_char :: "nat \<Rightarrow> char" where
  "digit_char d = ''0123456789'' ! d"

fun str_nat :: "nat \<Rightarrow> string" where
  "str_nat n = (if n < 10 then [digit_char n] else str_nat (n div 10) @ [digit_char (n mod 10)])"

definition str_int :: "int \<Rightarrow> string" where
  "str_int i = (if i < 0 then CHR ''-'' # str_nat (nat (- i)) else str_nat (nat i))"

subsection \<open>The sensor\<close>

text \<open>
  \<open>psutil.sensors_battery()\<close> returns \<open>None\<close> when no battery is present, a tuple with the
  fields \<open>percent\<close> and \<open>power_plugged\<close> otherwise (\<open>secsleft\<close> is never read), or raises.
\<close>

record sbattery =
  percent :: real
  power_plugged :: py_flag

datatype sensors_battery_result = Raises string | Returns "sbattery option"

subsection \<open>Animations\<close>

datatype QEasingCurve = Linear | InCubic | OutCubic

text \<open>The easing functions; the progress is clamped to \<open>[0, 1]\<close> first.\<close>

definition valueForProgress :: "QEasingCurve \<Rightarrow> real \<Rightarrow> real" where
  "valueForProgress c progress =
     (let t = max 0 (min 1 progress) in
      case c of
        Linear \<Rightarrow> t
      | InCubic \<Rightarrow> t * t * t
      | OutCubic \<Rightarrow> (t - 1) * (t - 1) * (t - 1) + 1)"

datatype State = Stopped | Paused | Running

text \<open>
  A property animation: duration in milliseconds, easing curve, start and end value (unset
  until \<open>setStartValue\<close>/\<open>setEndValue\<close>), run state and current time.
\<close>

record QPropertyAnimation =
  duration :: nat
  easingCurve :: QEasingCurve
  startValue :: "real option"
  endValue :: "real option"
  state :: State
  currentTime :: nat

text \<open>\<open>QPropertyAnimation(self, b"...")\<close>: 250 ms, linear, no values, stopped.\<close>

definition QPropertyAnimation_new :: QPropertyAnimation where
  "QPropertyAnimation_new =
     \<lparr>duration = 250, easingCurve = Linear, startValue = None, endValue = None,
      state = Stopped, currentTime = 0\<rparr>"

text \<open>
  The value the animation gives its property at time \<open>t\<close>:
  \<open>start + (end - start) * easing (t / duration)\<close>. The program starts an animation only
  after both values are set; with one unset, no value is written.
\<close>

definition value_at :: "QPropertyAnimation \<Rightarrow> nat \<Rightarrow> real option" where
  "value_at a t =
     (case (startValue a, endValue a) of
        (Some f, Some e) \<Rightarrow>
          Some (f + (e - f) * valueForProgress (easingCurve a)
                  (if duration a = 0 then 1 else real t / real (duration a)))
      | _ \<Rightarrow> None)"

text \<open>
  A sequential group plays its animations one after the other; the children's own clocks
  are functions of the group's clock, so only the group's state and time are kept.
\<close>

record QSequentialAnimationGroup =
  animations :: "QPropertyAnimation list"
  group_state :: State
  group_currentTime :: nat

definition QSequentialAnimationGroup_new :: QSequentialAnimationGroup where
  "QSequentialAnimationGroup_new = \<lparr>animations = [], group_state = Stopped, group_currentTime = 0\<rparr>"

definition addAnimation :: "QPropertyAnimation \<Rightarrow> QSequentialAnimationGroup \<Rightarrow> QSequentialAnimationGroup" where
  "addAnimation a g = g\<lparr>animations := animations g @ [a]\<rparr>"

definition totalDuration :: "QPropertyAnimation list \<Rightarrow> nat" where
  "totalDuration as = sum_list (map duration as)"

text \<open>
  The value at group time \<open>t\<close>: the animation whose interval holds \<open>t\<close>, at its local time;
  the last animation stays at its end.
\<close>

fun group_value_at :: "QPropertyAnimation list \<Rightarrow> nat \<Rightarrow> real option" where
  "group_value_at [] t = None"
| "group_value_at [a] t = value_at a (min t (duration a))"
| "group_value_at (a # b # as) t =
     (if t < duration a then value_at a t else group_value_at (b # as) (t - duration a))"

subsection \<open>Geometry and painting\<close>

text \<open>\<open>QRect\<close> keeps integer corners, both inclusive; \<open>QRectF\<close> keeps a corner and a size.\<close>

record QRect =
  x1 :: int
  y1 :: int
  x2 :: int
  y2 :: int

type_synonym QPoint = "int \<times> int"
type_synonym QPointF = "real \<times> real"

record QRectF =
  xp :: real
  yp :: real
  rw :: real
  rh :: real

definition QRect_xywh :: "int \<Rightarrow> int \<Rightarrow> int \<Rightarrow> int \<Rightarrow> QRect" where
  "QRect_xywh x y wd ht = \<lparr>x1 = x, y1 = y, x2 = x + wd - 1, y2 = y + ht - 1\<rparr>"

definition adjusted :: "QRect \<Rightarrow> int \<Rightarrow> int \<Rightarrow> int \<Rightarrow> int \<Rightarrow> QRect" where
  "adjusted r dx1 dy1 dx2 dy2 = \<lparr>x1 = x1 r + dx1, y1 = y1 r + dy1, x2 = x2 r + dx2, y2 = y2 r + dy2\<rparr>"

text \<open>The centre halves the sum of the corners with C++ integer division, towards zero.\<close>

definition half :: "int \<Rightarrow> int" where
  "half n = (if n < 0 then - ((- n) div 2) else n div 2)"

definition QRect_center :: "QRect \<Rightarrow> QPoint" where
  "QRect_center r = (half (x1 r + x2 r), half (y1 r + y2 r))"

definition QRect_width :: "QRect \<Rightarrow> int" where
  "QRect_width r = x2 r - x1 r + 1"

definition QRect_height :: "QRect \<Rightarrow> int" where
  "QRect_height r = y2 r - y1 r + 1"

definition moveCenter :: "QPoint \<Rightarrow> QRectF \<Rightarrow> QRectF" where
  "moveCenter c r = r\<lparr>xp := real_of_int (fst c) - rw r / 2, yp := real_of_int (snd c) - rh r / 2\<rparr>"

definition topLeft :: "QRectF \<Rightarrow> QPointF" where
  "topLeft r = (xp r, yp r)"

definition bottomLeft :: "QRectF \<Rightarrow> QPointF" where
  "bottomLeft r = (xp r, yp r + rh r)"

definition bottomRight :: "QRectF \<Rightarrow> QPointF" where
  "bottomRight r = (xp r + rw r, yp r + rh r)"

definition left :: "QRectF \<Rightarrow> real" where
  "left r = xp r"

definition bottom :: "QRectF \<Rightarrow> real" where
  "bottom r = yp r + rh r"

datatype QColor = ColorName string | ColorRGB nat nat nat | ColorRGBA nat nat nat nat | White

record QLinearGradient =
  gradient_start :: QPointF
  gradient_finalStop :: QPointF
  gradient_stops :: "(real \<times> QColor) list"

definition setColorAt :: "real \<Rightarrow> QColor \<Rightarrow> QLinearGradient \<Rightarrow> QLinearGradient" where
  "setColorAt pos c g = g\<lparr>gradient_stops := gradient_stops g @ [(pos, c)]\<rparr>"

datatype QBrush = NoBrush | SolidBrush QColor | GradientBrush QLinearGradient

datatype CapStyle = SquareCap | RoundCap

datatype QPen = NoPen | SolidLine QBrush real CapStyle

definition pen_setBrush :: "QBrush \<Rightarrow> QPen \<Rightarrow> QPen" where
  "pen_setBrush b p = (case p of NoPen \<Rightarrow> NoPen | SolidLine _ wd cap \<Rightarrow> SolidLine b wd cap)"

record QFont =
  family :: string
  pointSize :: nat
  bold :: bool

text \<open>
  What the painter has drawn, each operation with the pen and brush in force when it was
  issued.
\<close>

datatype Alignment = AlignCenter

datatype draw_op =
    DrawArc QRectF real real QPen
  | DrawRoundedRect QRectF real real QPen QBrush
  | DrawPolygon "QPointF list" QPen QBrush
  | DrawText QRect Alignment string "QFont option" QPen

record QPainter =
  antialiasing :: bool
  p_pen :: QPen
  p_brush :: QBrush
  p_font :: "QFont option"
  drawn :: "draw_op list"

definition QPainter_new :: QPainter where
  "QPainter_new =
     \<lparr>antialiasing = False, p_pen = SolidLine (SolidBrush (ColorName ''black'')) 1 SquareCap,
      p_brush = NoBrush, p_font = None, drawn = []\<rparr>"

definition drawArc :: "QRectF \<Rightarrow> real \<Rightarrow> real \<Rightarrow> QPainter \<Rightarrow> QPainter" where
  "drawArc r startAngle spanAngle p = p\<lparr>drawn := drawn p @ [DrawArc r startAngle spanAngle (p_pen p)]\<rparr>"

definition drawRoundedRect :: "QRectF \<Rightarrow> real \<Rightarrow> real \<Rightarrow> QPainter \<Rightarrow> QPainter" where
  "drawRoundedRect r xr yr p = p\<lparr>drawn := drawn p @ [DrawRoundedRect r xr yr (p_pen p) (p_brush p)]\<rparr>"

definition drawPolygon :: "QPointF list \<Rightarrow> QPainter \<Rightarrow> QPainter" where
  "drawPolygon pts p = p\<lparr>drawn := drawn p @ [DrawPolygon pts (p_pen p) (p_brush p)]\<rparr>"

definition drawText :: "QRect \<Rightarrow> Alignment \<Rightarrow> string \<Rightarrow> QPainter \<Rightarrow> QPainter" where
  "drawText r al s p = p\<lparr>drawn := drawn p @ [DrawText r al s (p_font p) (p_pen p)]\<rparr>"

subsection \<open>The widget\<close>

datatype WindowType = FramelessWindowHint | Tool

record BatteryWidget =
  animated_percent :: real
  pulse_scale :: real
  plugged :: py_flag
  prev_plugged :: py_flag
  animation :: QPropertyAnimation
  pulse_animation_group :: QSequentialAnimationGroup
  timer_interval :: "nat option"
  fixedSize :: "int \<times> int"
  windowFlags :: "WindowType list"
  translucentBackground :: bool
  position :: "int \<times> int"
  visible :: bool
  stdout :: "string list"

text \<open>
  \<open>animated_percent\<close> and \<open>pulse_scale\<close> are the attributes \<open>_animated_percent\<close> and
  \<open>_pulse_scale\<close>; \<open>timer_interval\<close> is \<open>None\<close> until \<open>__init__\<close> starts the timer;
  \<open>visible\<close> is set by \<open>show()\<close> and cleared by \<open>close()\<close>; \<open>stdout\<close> collects what
  \<open>print\<close> writes. Below, \<open>percent'\<close> is the local variable \<open>percent\<close> of the rendering
  methods and \<open>rect'\<close> the local \<open>rect\<close> (the plain names are the sensor's field and the
  widget's method).
\<close>

definition rect :: "BatteryWidget \<Rightarrow> QRect" where
  "rect self = QRect_xywh 0 0 (fst (fixedSize self)) (snd (fixedSize self))"

definition initUI :: "int \<Rightarrow> BatteryWidget \<Rightarrow> BatteryWidget" where
  "initUI screen_width self =
     (let self = self\<lparr>fixedSize := (120, 120)\<rparr>;
          self = self\<lparr>windowFlags := [FramelessWindowHint, Tool]\<rparr>;
          self = self\<lparr>translucentBackground := True\<rparr>
      in self\<lparr>position := (screen_width - fst (fixedSize self) - 20, 30)\<rparr>)"

definition initAnimation :: "BatteryWidget \<Rightarrow> BatteryWidget" where
  "initAnimation self =
     (let animation' = QPropertyAnimation_new;
          animation' = animation'\<lparr>duration := 1000\<rparr>;
          animation' = animation'\<lparr>easingCurve := OutCubic\<rparr>;
          group = QSequentialAnimationGroup_new;
          anim_grow = QPropertyAnimation_new;
          anim_grow = anim_grow\<lparr>duration := 150\<rparr>;
          anim_grow = anim_grow\<lparr>startValue := Some 1.0\<rparr>;
          anim_grow = anim_grow\<lparr>endValue := Some 1.1\<rparr>;
          anim_grow = anim_grow\<lparr>easingCurve := OutCubic\<rparr>;
          anim_shrink = QPropertyAnimation_new;
          anim_shrink = anim_shrink\<lparr>duration := 250\<rparr>;
          anim_shrink = anim_shrink\<lparr>startValue := Some 1.1\<rparr>;
          anim_shrink = anim_shrink\<lparr>endValue := Some 1.0\<rparr>;
          anim_shrink = anim_shrink\<lparr>easingCurve := InCubic\<rparr>;
          group = addAnimation anim_grow group;
          group = addAnimation anim_shrink group
      in self\<lparr>animation := animation', pulse_animation_group := group\<rparr>)"

definition get_animated_percent :: "BatteryWidget \<Rightarrow> real" where
  "get_animated_percent self = animated_percent self"

text \<open>
  The setters store the value and call \<open>self.update()\<close>, which only asks the toolkit for a
  repaint: \<open>paintEvent\<close> may then run at any time, on whatever the state is.
\<close>

definition set_animated_percent :: "real \<Rightarrow> BatteryWidget \<Rightarrow> BatteryWidget" where
  "set_animated_percent v self = self\<lparr>animated_percent := v\<rparr>"

definition get_pulse_scale :: "BatteryWidget \<Rightarrow> real" where
  "get_pulse_scale self = pulse_scale self"

definition set_pulse_scale :: "real \<Rightarrow> BatteryWidget \<Rightarrow> BatteryWidget" where
  "set_pulse_scale v self = self\<lparr>pulse_scale := v\<rparr>"

subsection \<open>The animations at work on the widget\<close>

text \<open>
  \<open>self.animation\<close> drives the property \<open>animated_percent\<close>. \<open>stop()\<close> leaves the property
  where it is. \<open>start()\<close> does nothing on a running animation; otherwise it rewinds to time 0
  and writes the value there. A clock tick of \<open>dt\<close> milliseconds moves a running animation
  forward, writes the value, and stops the animation at its duration.
\<close>

definition write_animated_percent :: "real option \<Rightarrow> BatteryWidget \<Rightarrow> BatteryWidget" where
  "write_animated_percent v self = (case v of None \<Rightarrow> self | Some x \<Rightarrow> set_animated_percent x self)"

definition animation_stop :: "BatteryWidget \<Rightarrow> BatteryWidget" where
  "animation_stop self = self\<lparr>animation := (animation self)\<lparr>state := Stopped\<rparr>\<rparr>"

definition animation_setStartValue :: "real \<Rightarrow> BatteryWidget \<Rightarrow> BatteryWidget" where
  "animation_setStartValue v self = self\<lparr>animation := (animation self)\<lparr>startValue := Some v\<rparr>\<rparr>"

definition animation_setEndValue :: "real \<Rightarrow> BatteryWidget \<Rightarrow> BatteryWidget" where
  "animation_setEndValue v self = self\<lparr>animation := (animation self)\<lparr>endValue := Some v\<rparr>\<rparr>"

definition animation_start :: "BatteryWidget \<Rightarrow> BatteryWidget" where
  "animation_start self =
     (if state (animation self) = Running then self
      else let a = (animation self)\<lparr>state := Running, currentTime := 0\<rparr>
           in write_animated_percent (value_at a 0) (self\<lparr>animation := a\<rparr>))"

definition animation_tick :: "nat \<Rightarrow> BatteryWidget \<Rightarrow> BatteryWidget" where
  "animation_tick dt self =
     (let a = animation self in
      if state a \<noteq> Running then self
      else let t = min (currentTime a + dt) (duration a);
               a = a\<lparr>currentTime := t, state := (if t = duration a then Stopped else Running)\<rparr>
           in write_animated_percent (value_at a t) (self\<lparr>animation := a\<rparr>))"

text \<open>The same for \<open>self.pulse_animation_group\<close>, which drives \<open>pulse_scale\<close>.\<close>

definition write_pulse_scale :: "real option \<Rightarrow> BatteryWidget \<Rightarrow> BatteryWidget" where
  "write_pulse_scale v self = (case v of None \<Rightarrow> self | Some x \<Rightarrow> set_pulse_scale x self)"

definition pulse_animation_group_start :: "BatteryWidget \<Rightarrow> BatteryWidget" where
  "pulse_animation_group_start self =
     (if group_state (pulse_animation_group self) = Running then self
      else let g = (pulse_animation_group self)\<lparr>group_state := Running, group_currentTime := 0\<rparr>
           in write_pulse_scale (group_value_at (animations g) 0) (self\<lparr>pulse_animation_group := g\<rparr>))"

definition pulse_tick :: "nat \<Rightarrow> BatteryWidget \<Rightarrow> BatteryWidget" where
  "pulse_tick dt self =
     (let g = pulse_animation_group self in
      if group_state g \<noteq> Running then self
      else let t = min (group_currentTime g + dt) (totalDuration (animations g));
               g = g\<lparr>group_currentTime := t,
                     group_state := (if t = totalDuration (animations g) then Stopped else Running)\<rparr>
           in write_pulse_scale (group_value_at (animations g) t) (self\<lparr>pulse_animation_group := g\<rparr>))"

subsection \<open>Polling\<close>

text \<open>
  The body of the \<open>try\<close>: \<open>Inl e\<close> when the sensor read raises \<open>e\<close>, which happens before any
  attribute is assigned.
\<close>

definition try_block :: "sensors_battery_result \<Rightarrow> BatteryWidget \<Rightarrow> string + BatteryWidget" where
  "try_block r self =
     (case r of
        Raises e \<Rightarrow> Inl e
      | Returns battery \<Rightarrow>
          (let target_percent = (case battery of Some b \<Rightarrow> py_int (percent b) | None \<Rightarrow> 0);
               self = self\<lparr>plugged := (case battery of Some b \<Rightarrow> power_plugged b | None \<Rightarrow> Some False)\<rparr>;
               self = (if truthy (plugged self) \<and> \<not> truthy (prev_plugged self)
                       then pulse_animation_group_start self else self);
               self = self\<lparr>prev_plugged := plugged self\<rparr>;
               self = animation_stop self;
               self = animation_setStartValue (animated_percent self) self;
               self = animation_setEndValue (real_of_int target_percent) self;
               self = animation_start self
           in Inr self))"

definition update_battery_info :: "sensors_battery_result \<Rightarrow> BatteryWidget \<Rightarrow> BatteryWidget" where
  "update_battery_info r self =
     (case try_block r self of
        Inr self' \<Rightarrow> self'
      | Inl e \<Rightarrow> self\<lparr>stdout := stdout self @ [''Error fetching battery info: '' @ e]\<rparr>)"

subsection \<open>Rendering\<close>

definition setPen :: "QPen \<Rightarrow> QPainter \<Rightarrow> QPainter" where
  "setPen pn p = p\<lparr>p_pen := pn\<rparr>"

definition setBrush :: "QBrush \<Rightarrow> QPainter \<Rightarrow> QPainter" where
  "setBrush b p = p\<lparr>p_brush := b\<rparr>"

definition setFont :: "QFont \<Rightarrow> QPainter \<Rightarrow> QPainter" where
  "setFont f p = p\<lparr>p_font := Some f\<rparr>"

definition QLinearGradient_new :: "QPointF \<Rightarrow> QPointF \<Rightarrow> QLinearGradient" where
  "QLinearGradient_new a b = \<lparr>gradient_start = a, gradient_finalStop = b, gradient_stops = []\<rparr>"

definition draw_battery_icon ::
  "BatteryWidget \<Rightarrow> QPainter \<Rightarrow> real \<Rightarrow> string \<Rightarrow> string \<Rightarrow> QPainter" where
  "draw_battery_icon self painter percent' color1 color2 =
     (let body_rect = \<lparr>xp = 45, yp = 35, rw = 30, rh = 45\<rparr>;
          painter = setBrush (SolidBrush (ColorRGBA 40 40 40 200)) painter;
          painter = setPen (SolidLine (SolidBrush (ColorRGB 200 200 200)) 1.5 SquareCap) painter;
          painter = drawRoundedRect body_rect 3 3 painter;
          cap_rect = \<lparr>xp = 51, yp = 31, rw = 18, rh = 4\<rparr>;
          painter = drawRoundedRect cap_rect 2 2 painter;
          fill_height = (rh body_rect - 4) * (percent' / 100.0);
          fill_rect = \<lparr>xp = left body_rect + 2, yp = bottom body_rect - 2 - fill_height,
                       rw = rw body_rect - 4, rh = fill_height\<rparr>;
          fill_gradient = QLinearGradient_new (topLeft fill_rect) (bottomLeft fill_rect);
          fill_gradient = setColorAt 0 (ColorName color1) fill_gradient;
          fill_gradient = setColorAt 1 (ColorName color2) fill_gradient;
          painter = setBrush (GradientBrush fill_gradient) painter;
          painter = setPen NoPen painter;
          painter = drawRoundedRect fill_rect 2 2 painter
      in if truthy (plugged self)
         then let painter = setBrush (SolidBrush (ColorRGBA 255 255 255 220)) painter;
                  painter = setPen NoPen painter;
                  points = [(57, 48), (63, 48), (60, 57), (63, 57), (57, 70), (60, 61), (57, 61)]
              in drawPolygon points painter
         else painter)"

definition paintEvent :: "BatteryWidget \<Rightarrow> QPainter" where
  "paintEvent self =
     (let painter = QPainter_new;
          painter = painter\<lparr>antialiasing := True\<rparr>;
          base_rect = adjusted (rect self) 10 10 (- 10) (- 10);
          center = QRect_center base_rect;
          width = real_of_int (QRect_width base_rect) * pulse_scale self;
          height = real_of_int (QRect_height base_rect) * pulse_scale self;
          rect' = \<lparr>xp = 0, yp = 0, rw = width, rh = height\<rparr>;
          rect' = moveCenter center rect';
          percent' = animated_percent self;
          (color1, color2) =
            (if truthy (plugged self) then (''#69F0AE'', ''#00C853'')
             else if percent' < 20 then (''#F44336'', ''#D32F2F'')
             else if percent' < 50 then (''#FFC107'', ''#FFA000'')
             else (''#00E5FF'', ''#00B8D4''));
          gradient = QLinearGradient_new (topLeft rect') (bottomRight rect');
          gradient = setColorAt 0 (ColorName color1) gradient;
          gradient = setColorAt 1 (ColorName color2) gradient;
          pen = SolidLine (SolidBrush (ColorRGBA 60 60 60 200)) 10 RoundCap;
          painter = setPen pen painter;
          start_angle = 90 * 16;
          span_angle = 360 * 16;
          painter = drawArc rect' start_angle span_angle painter;
          pen = pen_setBrush (GradientBrush gradient) pen;
          painter = setPen pen painter;
          progress_span = - percent' / 100.0 * span_angle;
          painter = drawArc rect' start_angle progress_span painter;
          painter = draw_battery_icon self painter percent' color1 color2;
          font = \<lparr>family = ''Segoe UI'', pointSize = 9, bold = True\<rparr>;
          painter = setFont font painter;
          painter = setPen (SolidLine (SolidBrush White) 1 SquareCap) painter;
          text_rect = adjusted (rect self) 0 80 0 (- 15)
      in drawText text_rect AlignCenter (str_int (py_int percent') @ ''%'') painter)"

subsection \<open>Construction, mouse, event loop\<close>

definition BatteryWidget_init :: "int \<Rightarrow> sensors_battery_result \<Rightarrow> BatteryWidget" where
  "BatteryWidget_init screen_width r =
     (let self = \<lparr>animated_percent = 0.0, pulse_scale = 1.0, plugged = Some False,
                  prev_plugged = Some False, animation = QPropertyAnimation_new,
                  pulse_animation_group = QSequentialAnimationGroup_new, timer_interval = None,
                  fixedSize = (0, 0), windowFlags = [], translucentBackground = False,
                  position = (0, 0), visible = False, stdout = []\<rparr>;
          self = initUI screen_width self;
          self = initAnimation self;
          self = update_battery_info r self
      in self\<lparr>timer_interval := Some 1000\<rparr>)"

datatype MouseButton = LeftButton | RightButton | MiddleButton | BackButton | ForwardButton

definition close :: "BatteryWidget \<Rightarrow> BatteryWidget" where
  "close self = self\<lparr>visible := False\<rparr>"

definition mousePressEvent :: "MouseButton \<Rightarrow> BatteryWidget \<Rightarrow> BatteryWidget" where
  "mousePressEvent button self = (if button = RightButton then close self else self)"

text \<open>
  What the event loop delivers: the timer's timeout with what the sensor read does this
  time, a tick of the animation clock with the milliseconds gone by, a mouse press.
\<close>

datatype event = Timeout sensors_battery_result | Tick nat | MousePress MouseButton

fun dispatch :: "event \<Rightarrow> BatteryWidget \<Rightarrow> BatteryWidget" where
  "dispatch (Timeout r) self = update_battery_info r self"
| "dispatch (Tick dt) self = pulse_tick dt (animation_tick dt self)"
| "dispatch (MousePress button) self = mousePressEvent button self"

text \<open>
  \<open>app.exec()\<close>: events are handled in turn. \<open>initUI\<close> makes the widget a \<open>Qt.Tool\<close>
  window, and the toolkit does not quit when a tool window is closed: \<open>close()\<close> hides the
  widget, the loop goes on, and the timer and the animation clock keep firing.
\<close>

fun exec :: "event list \<Rightarrow> BatteryWidget \<Rightarrow> BatteryWidget" where
  "exec [] self = self"
| "exec (e # es) self = exec es (dispatch e self)"

definition main :: "int \<Rightarrow> sensors_battery_result \<Rightarrow> event list \<Rightarrow> BatteryWidget" where
  "main screen_width r es =
     (let widget = BatteryWidget_init screen_width r;
          widget = widget\<lparr>visible := True\<rparr>
      in exec es widget)"

subsection \<open>Names for the statements\<close>

text \<open>
  What a successful read makes of the sensor's answer: the animation target and the plugged
  flag, as the first two lines of the \<open>try\<close> compute them.
\<close>

definition target_of :: "sbattery option \<Rightarrow> int" where
  "target_of battery = (case battery of Some b \<Rightarrow> py_int (percent b) | None \<Rightarrow> 0)"

definition plugged_of :: "sbattery option \<Rightarrow> py_flag" where
  "plugged_of battery = (case battery of Some b \<Rightarrow> power_plugged b | None \<Rightarrow> Some False)"

text \<open>The two animations of the pulse, as \<open>initAnimation\<close> builds them.\<close>

definition anim_grow :: QPropertyAnimation where
  "anim_grow = \<lparr>duration = 150, easingCurve = OutCubic, startValue = Some 1.0,
                 endValue = Some 1.1, state = Stopped, currentTime = 0\<rparr>"

definition anim_shrink :: QPropertyAnimation where
  "anim_shrink = \<lparr>duration = 250, easingCurve = InCubic, startValue = Some 1.1,
                   endValue = Some 1.0, state = Stopped, currentTime = 0\<rparr>"

text \<open>
  Reading what \<open>paintEvent\<close> has drawn: the angles of the arcs, the rectangles of the
  rounded rectangles, the strings, and the colours of every gradient used by a pen or brush.
\<close>

fun arc_of :: "draw_op \<Rightarrow> (real \<times> real) option" where
  "arc_of (DrawArc r a b pn) = Some (a, b)"
| "arc_of _ = None"

definition arcs :: "QPainter \<Rightarrow> (real \<times> real) list" where
  "arcs p = List.map_filter arc_of (drawn p)"

fun rounded_rect_of :: "draw_op \<Rightarrow> QRectF option" where
  "rounded_rect_of (DrawRoundedRect r xr yr pn b) = Some r"
| "rounded_rect_of _ = None"

definition rounded_rects :: "QPainter \<Rightarrow> QRectF list" where
  "rounded_rects p = List.map_filter rounded_rect_of (drawn p)"

fun text_of :: "draw_op \<Rightarrow> string option" where
  "text_of (DrawText r al s f pn) = Some s"
| "text_of _ = None"

definition texts :: "QPainter \<Rightarrow> string list" where
  "texts p = List.map_filter text_of (drawn p)"

fun brush_gradients :: "QBrush \<Rightarrow> QLinearGradient list" where
  "brush_gradients (GradientBrush g) = [g]"
| "brush_gradients _ = []"

fun pen_gradients :: "QPen \<Rightarrow> QLinearGradient list" where
  "pen_gradients (SolidLine b wd cap) = brush_gradients b"
| "pen_gradients NoPen = []"

fun op_gradients :: "draw_op \<Rightarrow> QLinearGradient list" where
  "op_gradients (DrawArc r a b pn) = pen_gradients pn"
| "op_gradients (DrawRoundedRect r xr yr pn b) = pen_gradients pn @ brush_gradients b"
| "op_gradients (DrawPolygon pts pn b) = pen_gradients pn @ brush_gradients b"
| "op_gradients (DrawText r al s f pn) = pen_gradients pn"

definition gradient_colors :: "QPainter \<Rightarrow> QColor list list" where
  "gradient_colors p = map (\<lambda>g. map snd (gradient_stops g)) (concat (map op_gradients (drawn p)))"

text \<open>
  Parts of \<open>paintEvent\<close> and \<open>draw_battery_icon\<close> under names of their own: the colour pair
  (the \<open>if\<close>/\<open>elif\<close> chain), the scaled rectangle of the arcs, a gradient with its two
  stops, and the fill rectangle of the battery glyph.
\<close>

definition color_pair :: "BatteryWidget \<Rightarrow> string \<times> string" where
  "color_pair self =
     (if truthy (plugged self) then (''#69F0AE'', ''#00C853'')
      else if animated_percent self < 20 then (''#F44336'', ''#D32F2F'')
      else if animated_percent self < 50 then (''#FFC107'', ''#FFA000'')
      else (''#00E5FF'', ''#00B8D4''))"

definition arc_rect :: "BatteryWidget \<Rightarrow> QRectF" where
  "arc_rect self =
     (let base_rect = adjusted (rect self) 10 10 (- 10) (- 10)
      in moveCenter (QRect_center base_rect)
           \<lparr>xp = 0, yp = 0, rw = real_of_int (QRect_width base_rect) * pulse_scale self,
            rh = real_of_int (QRect_height base_rect) * pulse_scale self\<rparr>)"

definition two_stops :: "QPointF \<Rightarrow> QPointF \<Rightarrow> string \<times> string \<Rightarrow> QLinearGradient" where
  "two_stops a b cs = \<lparr>gradient_start = a, gradient_finalStop = b,
                        gradient_stops = [(0, ColorName (fst cs)), (1, ColorName (snd cs))]\<rparr>"

definition fill_rect_of :: "real \<Rightarrow> QRectF" where
  "fill_rect_of p = \<lparr>xp = 47, yp = 78 - 41 * (p / 100), rw = 26, rh = 41 * (p / 100)\<rparr>"

text \<open>
  Readings and events whose percent lies in \<open>[0, 100]\<close>, and the invariant of the widget:
  the animations keep the parameters \<open>initAnimation\<close> gave them, the displayed percent and
  the start and end values lie in \<open>[0, 100]\<close>, a running percent animation has both values,
  one that is not running rests on its end value, and a pulse that is not running rests on
  scale 1.
\<close>

fun reading_in_range :: "sensors_battery_result \<Rightarrow> bool" where
  "reading_in_range (Raises e) = True"
| "reading_in_range (Returns None) = True"
| "reading_in_range (Returns (Some b)) = (0 \<le> percent b \<and> percent b \<le> 100)"

fun event_in_range :: "event \<Rightarrow> bool" where
  "event_in_range (Timeout r) = reading_in_range r"
| "event_in_range _ = True"

fun percent_value :: "real option \<Rightarrow> bool" where
  "percent_value None = True"
| "percent_value (Some x) = (0 \<le> x \<and> x \<le> 100)"

definition widget_inv :: "BatteryWidget \<Rightarrow> bool" where
  "widget_inv self =
     (duration (animation self) = 1000
      \<and> animations (pulse_animation_group self) = [anim_grow, anim_shrink]
      \<and> 0 \<le> animated_percent self \<and> animated_percent self \<le> 100
      \<and> percent_value (startValue (animation self))
      \<and> percent_value (endValue (animation self))
      \<and> (state (animation self) = Running \<longrightarrow>
            startValue (animation self) \<noteq> None \<and> endValue (animation self) \<noteq> None)
      \<and> (state (animation self) \<noteq> Running \<and> endValue (animation self) \<noteq> None \<longrightarrow>
            endValue (animation self) = Some (animated_percent self))
      \<and> (group_state (pulse_animation_group self) \<noteq> Running \<longrightarrow> pulse_scale self = 1))"

section \<open>Properties\<close>

subsection \<open>Easing\<close>

lemma valueForProgress_1: "valueForProgress c 1 = 1"
  by (cases c) (simp_all add: valueForProgress_def)

lemma valueForProgress_0: "valueForProgress c 0 = 0"
  by (cases c) (simp_all add: valueForProgress_def)

subsection \<open>One poll, one tick, as equations on the record\<close>

lemma poll_raises:
  "update_battery_info (Raises e) self =
     self\<lparr>stdout := stdout self @ [''Error fetching battery info: '' @ e]\<rparr>"
  by (simp add: update_battery_info_def try_block_def)

lemma pulse_start_eq:
  "pulse_animation_group_start self =
     (if group_state (pulse_animation_group self) = Running then self
      else self\<lparr>pulse_animation_group :=
                   (pulse_animation_group self)\<lparr>group_state := Running, group_currentTime := 0\<rparr>,
                 pulse_scale := (case group_value_at (animations (pulse_animation_group self)) 0 of
                                   None \<Rightarrow> pulse_scale self | Some x \<Rightarrow> x)\<rparr>)"
  by (simp add: pulse_animation_group_start_def write_pulse_scale_def set_pulse_scale_def Let_def
           split: option.splits)

lemma restart_eq:
  "animation_start (animation_setEndValue e
       (animation_setStartValue (animated_percent (animation_stop self)) (animation_stop self))) =
     self\<lparr>animation := (animation self)\<lparr>startValue := Some (animated_percent self),
                 endValue := Some e, state := Running, currentTime := 0\<rparr>,
          animated_percent := (if duration (animation self) = 0 then e else animated_percent self)\<rparr>"
  by (simp add: animation_start_def animation_setEndValue_def animation_setStartValue_def
       animation_stop_def write_animated_percent_def set_animated_percent_def Let_def value_at_def
       valueForProgress_0 valueForProgress_1)

lemma poll_eq:
  "update_battery_info (Returns battery) self =
     self\<lparr>plugged := plugged_of battery,
          prev_plugged := plugged_of battery,
          pulse_animation_group :=
            (if truthy (plugged_of battery) \<and> \<not> truthy (prev_plugged self)
                \<and> group_state (pulse_animation_group self) \<noteq> Running
             then (pulse_animation_group self)\<lparr>group_state := Running, group_currentTime := 0\<rparr>
             else pulse_animation_group self),
          pulse_scale :=
            (if truthy (plugged_of battery) \<and> \<not> truthy (prev_plugged self)
                \<and> group_state (pulse_animation_group self) \<noteq> Running
             then (case group_value_at (animations (pulse_animation_group self)) 0 of
                     None \<Rightarrow> pulse_scale self | Some x \<Rightarrow> x)
             else pulse_scale self),
          animation := (animation self)\<lparr>startValue := Some (animated_percent self),
                 endValue := Some (real_of_int (target_of battery)), state := Running, currentTime := 0\<rparr>,
          animated_percent := (if duration (animation self) = 0 then real_of_int (target_of battery)
                               else animated_percent self)\<rparr>"
  unfolding update_battery_info_def try_block_def
  by (simp add: Let_def restart_eq pulse_start_eq plugged_of_def target_of_def
           split: option.splits)

lemma animation_tick_eq:
  "animation_tick dt self =
     (if state (animation self) \<noteq> Running then self
      else self\<lparr>animation := (animation self)
                   \<lparr>currentTime := min (currentTime (animation self) + dt) (duration (animation self)),
                    state := (if duration (animation self) \<le> currentTime (animation self) + dt
                              then Stopped else Running)\<rparr>,
                 animated_percent :=
                   (case value_at (animation self)
                           (min (currentTime (animation self) + dt) (duration (animation self)))
                    of None \<Rightarrow> animated_percent self | Some x \<Rightarrow> x)\<rparr>)"
  by (simp add: animation_tick_def write_animated_percent_def set_animated_percent_def Let_def
        value_at_def min_def split: option.splits)

lemma pulse_tick_eq:
  "pulse_tick dt self =
     (let g = pulse_animation_group self in
      if group_state g \<noteq> Running then self
      else self\<lparr>pulse_animation_group := g
                   \<lparr>group_currentTime := min (group_currentTime g + dt) (totalDuration (animations g)),
                    group_state := (if totalDuration (animations g) \<le> group_currentTime g + dt
                                    then Stopped else Running)\<rparr>,
                 pulse_scale :=
                   (case group_value_at (animations g)
                           (min (group_currentTime g + dt) (totalDuration (animations g)))
                    of None \<Rightarrow> pulse_scale self | Some x \<Rightarrow> x)\<rparr>)"
  by (simp add: pulse_tick_def write_pulse_scale_def set_pulse_scale_def Let_def
        min_def split: option.splits)

subsection \<open>What is printed changes nothing else\<close>

lemma poll_returns_stdout:
  "update_battery_info (Returns battery) (self\<lparr>stdout := x\<rparr>) =
     (update_battery_info (Returns battery) self)\<lparr>stdout := x\<rparr>"
  by (simp add: poll_eq cong: option.case_cong)

lemma animation_tick_stdout:
  "animation_tick dt (self\<lparr>stdout := x\<rparr>) = (animation_tick dt self)\<lparr>stdout := x\<rparr>"
  by (simp add: animation_tick_eq cong: option.case_cong)

lemma pulse_tick_stdout:
  "pulse_tick dt (self\<lparr>stdout := x\<rparr>) = (pulse_tick dt self)\<lparr>stdout := x\<rparr>"
  by (simp add: pulse_tick_eq Let_def cong: option.case_cong)

lemma dispatch_stdout:
  "dispatch e (self\<lparr>stdout := x\<rparr>) =
     (dispatch e self)\<lparr>stdout := stdout (dispatch e (self\<lparr>stdout := x\<rparr>))\<rparr>"
proof (cases e)
  case (Timeout r)
  then show ?thesis
    by (cases r) (simp_all add: poll_raises poll_returns_stdout)
next
  case (Tick dt)
  then show ?thesis
    by (simp add: animation_tick_stdout pulse_tick_stdout)
next
  case (MousePress b)
  then show ?thesis
    by (simp add: mousePressEvent_def close_def)
qed

lemma exec_stdout:
  "(exec es (self\<lparr>stdout := x\<rparr>))\<lparr>stdout := []\<rparr> = (exec es self)\<lparr>stdout := []\<rparr>"
proof (induction es arbitrary: self x)
  case Nil
  show ?case by simp
next
  case (Cons e es)
  have "exec (e # es) (self\<lparr>stdout := x\<rparr>) = exec es (dispatch e (self\<lparr>stdout := x\<rparr>))"
    by simp
  also have "\<dots> = exec es ((dispatch e self)\<lparr>stdout := stdout (dispatch e (self\<lparr>stdout := x\<rparr>))\<rparr>)"
    using dispatch_stdout by simp
  finally show ?case using Cons.IH by simp
qed

subsection \<open>The widget after construction\<close>

lemma initAnimation_eq:
  "initAnimation self =
     self\<lparr>animation := \<lparr>duration = 1000, easingCurve = OutCubic, startValue = None,
                         endValue = None, state = Stopped, currentTime = 0\<rparr>,
          pulse_animation_group := \<lparr>animations = [anim_grow, anim_shrink], group_state = Stopped,
                                     group_currentTime = 0\<rparr>\<rparr>"
  by (simp add: initAnimation_def Let_def QPropertyAnimation_new_def
        QSequentialAnimationGroup_new_def addAnimation_def anim_grow_def anim_shrink_def)

lemma BatteryWidget_init_eq:
  "BatteryWidget_init screen_width (Returns battery) =
     \<lparr>animated_percent = 0, pulse_scale = 1, plugged = plugged_of battery,
      prev_plugged = plugged_of battery,
      animation = \<lparr>duration = 1000, easingCurve = OutCubic, startValue = Some 0,
                    endValue = Some (real_of_int (target_of battery)), state = Running,
                    currentTime = 0\<rparr>,
      pulse_animation_group =
        \<lparr>animations = [anim_grow, anim_shrink],
         group_state = (if truthy (plugged_of battery) then Running else Stopped),
         group_currentTime = 0\<rparr>,
      timer_interval = Some 1000, fixedSize = (120, 120),
      windowFlags = [FramelessWindowHint, Tool], translucentBackground = True,
      position = (screen_width - 140, 30), visible = False, stdout = []\<rparr>"
  by (simp add: BatteryWidget_init_def initUI_def initAnimation_eq poll_eq Let_def truthy_def
        anim_grow_def anim_shrink_def value_at_def valueForProgress_0)

subsection \<open>What is drawn\<close>

lemma draw_battery_icon_drawn:
  "drawn (draw_battery_icon self painter p c1 c2) =
     drawn painter @
     [DrawRoundedRect \<lparr>xp = 45, yp = 35, rw = 30, rh = 45\<rparr> 3 3
        (SolidLine (SolidBrush (ColorRGB 200 200 200)) 1.5 SquareCap) (SolidBrush (ColorRGBA 40 40 40 200)),
      DrawRoundedRect \<lparr>xp = 51, yp = 31, rw = 18, rh = 4\<rparr> 2 2
        (SolidLine (SolidBrush (ColorRGB 200 200 200)) 1.5 SquareCap) (SolidBrush (ColorRGBA 40 40 40 200)),
      DrawRoundedRect (fill_rect_of p) 2 2 NoPen
        (GradientBrush (two_stops (topLeft (fill_rect_of p)) (bottomLeft (fill_rect_of p)) (c1, c2)))] @
     (if truthy (plugged self)
      then [DrawPolygon [(57, 48), (63, 48), (60, 57), (63, 57), (57, 70), (60, 61), (57, 61)]
              NoPen (SolidBrush (ColorRGBA 255 255 255 220))]
      else [])"
  by (simp add: draw_battery_icon_def Let_def setBrush_def setPen_def drawRoundedRect_def
        drawPolygon_def QLinearGradient_new_def setColorAt_def two_stops_def fill_rect_of_def
        left_def bottom_def topLeft_def bottomLeft_def)

lemma draw_battery_icon_font:
  "p_font (draw_battery_icon self painter p c1 c2) = p_font painter"
  by (simp add: draw_battery_icon_def Let_def setBrush_def setPen_def drawRoundedRect_def
        drawPolygon_def)

lemma paintEvent_drawn:
  "drawn (paintEvent self) =
     [DrawArc (arc_rect self) (90 * 16) (360 * 16) (SolidLine (SolidBrush (ColorRGBA 60 60 60 200)) 10 RoundCap),
      DrawArc (arc_rect self) (90 * 16) (- animated_percent self / 100 * (360 * 16))
        (SolidLine (GradientBrush (two_stops (topLeft (arc_rect self)) (bottomRight (arc_rect self))
                                     (color_pair self))) 10 RoundCap),
      DrawRoundedRect \<lparr>xp = 45, yp = 35, rw = 30, rh = 45\<rparr> 3 3
        (SolidLine (SolidBrush (ColorRGB 200 200 200)) 1.5 SquareCap) (SolidBrush (ColorRGBA 40 40 40 200)),
      DrawRoundedRect \<lparr>xp = 51, yp = 31, rw = 18, rh = 4\<rparr> 2 2
        (SolidLine (SolidBrush (ColorRGB 200 200 200)) 1.5 SquareCap) (SolidBrush (ColorRGBA 40 40 40 200)),
      DrawRoundedRect (fill_rect_of (animated_percent self)) 2 2 NoPen
        (GradientBrush (two_stops (topLeft (fill_rect_of (animated_percent self)))
                          (bottomLeft (fill_rect_of (animated_percent self))) (color_pair self)))] @
     (if truthy (plugged self)
      then [DrawPolygon [(57, 48), (63, 48), (60, 57), (63, 57), (57, 70), (60, 61), (57, 61)]
              NoPen (SolidBrush (ColorRGBA 255 255 255 220))]
      else []) @
     [DrawText (adjusted (rect self) 0 80 0 (- 15)) AlignCenter
        (str_int (py_int (animated_percent self)) @ ''%'')
        (Some \<lparr>family = ''Segoe UI'', pointSize = 9, bold = True\<rparr>)
        (SolidLine (SolidBrush White) 1 SquareCap)]"
  by (simp add: paintEvent_def Let_def split_def draw_battery_icon_drawn draw_battery_icon_font
        drawText_def drawArc_def setPen_def setFont_def pen_setBrush_def QPainter_new_def
        QLinearGradient_new_def setColorAt_def two_stops_def arc_rect_def color_pair_def)

lemma gradient_colors_paintEvent:
  "gradient_colors (paintEvent self) =
     [[ColorName (fst (color_pair self)), ColorName (snd (color_pair self))],
      [ColorName (fst (color_pair self)), ColorName (snd (color_pair self))]]"
  by (simp add: gradient_colors_def paintEvent_drawn two_stops_def)

lemma arcs_paintEvent:
  "arcs (paintEvent self) = [(90 * 16, 360 * 16), (90 * 16, - animated_percent self / 100 * (360 * 16))]"
  by (simp add: arcs_def paintEvent_drawn List.map_filter_simps)

lemma texts_paintEvent:
  "texts (paintEvent self) = [str_int (py_int (animated_percent self)) @ ''%'']"
  by (simp add: texts_def paintEvent_drawn List.map_filter_simps)

lemma rounded_rects_paintEvent:
  "rounded_rects (paintEvent self) =
     [\<lparr>xp = 45, yp = 35, rw = 30, rh = 45\<rparr>, \<lparr>xp = 51, yp = 31, rw = 18, rh = 4\<rparr>,
      fill_rect_of (animated_percent self)]"
  by (simp add: rounded_rects_def paintEvent_drawn List.map_filter_simps)

lemma paintEvent_cong:
  "animated_percent a = animated_percent b \<Longrightarrow> pulse_scale a = pulse_scale b \<Longrightarrow>
   plugged a = plugged b \<Longrightarrow> fixedSize a = fixedSize b \<Longrightarrow> paintEvent a = paintEvent b"
  by (simp add: paintEvent_def draw_battery_icon_def rect_def Let_def)

subsection \<open>Running the program on given events\<close>

lemmas run_simps = main_def BatteryWidget_init_eq Let_def animation_tick_eq pulse_tick_eq
  plugged_of_def target_of_def py_int_def truthy_def value_at_def valueForProgress_def
  poll_eq poll_raises mousePressEvent_def close_def totalDuration_def anim_grow_def anim_shrink_def

text \<open>A longer run is followed one event at a time, from the state reached so far.\<close>

lemma exec_append: "exec (es @ es') self = exec es' (exec es self)"
  by (induction es arbitrary: self) simp_all

lemma main_step: "main sw r es = w \<Longrightarrow> main sw r (es @ [e]) = dispatch e w"
  by (auto simp add: main_def Let_def exec_append)

lemmas step_simps = animation_tick_eq pulse_tick_eq poll_eq poll_raises Let_def
  plugged_of_def target_of_def py_int_def truthy_def value_at_def valueForProgress_def
  mousePressEvent_def close_def totalDuration_def anim_grow_def anim_shrink_def

subsection \<open>Ticks of the animation clock\<close>

lemma pulse_tick_keeps:
  "animation (pulse_tick dt self) = animation self"
  "animated_percent (pulse_tick dt self) = animated_percent self"
  by (simp_all add: pulse_tick_eq Let_def)

lemma animation_tick_keeps:
  "pulse_animation_group (animation_tick dt self) = pulse_animation_group self"
  "pulse_scale (animation_tick dt self) = pulse_scale self"
  by (simp_all add: animation_tick_eq)

lemma ticks_stopped:
  "state (animation self) \<noteq> Running \<Longrightarrow>
   animation (fold dispatch (map Tick ds) self) = animation self
   \<and> animated_percent (fold dispatch (map Tick ds) self) = animated_percent self"
proof (induction ds arbitrary: self)
  case Nil
  show ?case by simp
next
  case (Cons d ds)
  have "animation (dispatch (Tick d) self) = animation self"
       "animated_percent (dispatch (Tick d) self) = animated_percent self"
    using Cons.prems by (simp_all add: pulse_tick_keeps animation_tick_eq)
  then show ?case using Cons.IH[of "dispatch (Tick d) self"] Cons.prems by simp
qed

lemma value_at_end:
  "startValue a = Some f \<Longrightarrow> endValue a = Some e \<Longrightarrow> value_at a (duration a) = Some e"
  by (simp add: value_at_def valueForProgress_1)

lemma ticks_complete:
  "state (animation self) = Running \<Longrightarrow> startValue (animation self) = Some f \<Longrightarrow>
   endValue (animation self) = Some e \<Longrightarrow> ds \<noteq> [] \<Longrightarrow>
   duration (animation self) \<le> currentTime (animation self) + sum_list ds \<Longrightarrow>
   animated_percent (fold dispatch (map Tick ds) self) = e
   \<and> state (animation (fold dispatch (map Tick ds) self)) = Stopped"
proof (induction ds arbitrary: self)
  case Nil
  then show ?case by simp
next
  case (Cons d ds)
  let ?s = "dispatch (Tick d) self"
  show ?case
  proof (cases "duration (animation self) \<le> currentTime (animation self) + d")
    case True
    have "state (animation ?s) = Stopped" "animated_percent ?s = e"
      using True Cons.prems(1-3) value_at_end[of "animation self" f e]
      by (simp_all add: pulse_tick_keeps animation_tick_eq)
    then show ?thesis using ticks_stopped[of ?s ds] by simp
  next
    case False
    have s: "state (animation ?s) = Running" "startValue (animation ?s) = Some f"
        "endValue (animation ?s) = Some e"
        "currentTime (animation ?s) = currentTime (animation self) + d"
        "duration (animation ?s) = duration (animation self)"
      using False Cons.prems(1-3) by (simp_all add: pulse_tick_keeps animation_tick_eq)
    have ne: "ds \<noteq> []" using False Cons.prems(5) by auto
    have "duration (animation ?s) \<le> currentTime (animation ?s) + sum_list ds"
      using s Cons.prems(5) by simp
    then show ?thesis using Cons.IH[of ?s] s ne by simp
  qed
qed

lemma poll_then_ticks:
  "ds \<noteq> [] \<Longrightarrow> duration (animation self) \<le> sum_list ds \<Longrightarrow>
   animated_percent (fold dispatch (map Tick ds) (update_battery_info (Returns battery) self)) =
     real_of_int (target_of battery)
   \<and> state (animation (fold dispatch (map Tick ds) (update_battery_info (Returns battery) self))) = Stopped"
  using ticks_complete[of "update_battery_info (Returns battery) self" "animated_percent self"
          "real_of_int (target_of battery)" ds]
  by (simp add: poll_eq)

lemma py_int_range: "0 \<le> x \<Longrightarrow> x \<le> 100 \<Longrightarrow> 0 \<le> py_int x \<and> py_int x \<le> 100"
  by (simp add: py_int_def floor_le_iff)

lemma py_int_nonneg: "0 \<le> x \<Longrightarrow> real_of_int (py_int x) \<le> x \<and> x < real_of_int (py_int x) + 1"
  by (simp add: py_int_def)

lemma fractional_reading: "(999/10 :: real) \<notin> \<int>"
  by (simp add: frac_eq_0_iff[symmetric] frac_def)


subsection \<open>What no event changes\<close>

lemma dispatch_keeps_params:
  "duration (animation (dispatch e self)) = duration (animation self)
   \<and> easingCurve (animation (dispatch e self)) = easingCurve (animation self)
   \<and> animations (pulse_animation_group (dispatch e self)) = animations (pulse_animation_group self)
   \<and> fixedSize (dispatch e self) = fixedSize self"
proof (cases e)
  case (Timeout r)
  then show ?thesis by (cases r) (simp_all add: poll_raises poll_eq)
next
  case (Tick dt)
  then show ?thesis by (simp add: pulse_tick_eq animation_tick_eq Let_def)
next
  case (MousePress b)
  then show ?thesis by (simp add: mousePressEvent_def close_def)
qed

lemma exec_keeps_params:
  "duration (animation (exec es self)) = duration (animation self)
   \<and> easingCurve (animation (exec es self)) = easingCurve (animation self)
   \<and> animations (pulse_animation_group (exec es self)) = animations (pulse_animation_group self)
   \<and> fixedSize (exec es self) = fixedSize self"
proof (induction es arbitrary: self)
  case Nil
  show ?case by simp
next
  case (Cons e es)
  show ?case using Cons.IH[of "dispatch e self"] dispatch_keeps_params[of e self] by simp
qed

lemma init_params:
  "duration (animation (BatteryWidget_init sw r)) = 1000
   \<and> easingCurve (animation (BatteryWidget_init sw r)) = OutCubic
   \<and> animations (pulse_animation_group (BatteryWidget_init sw r)) = [anim_grow, anim_shrink]
   \<and> fixedSize (BatteryWidget_init sw r) = (120, 120)"
proof (cases r)
  case (Raises e)
  then show ?thesis
    by (simp add: BatteryWidget_init_def initUI_def initAnimation_eq poll_raises Let_def)
next
  case (Returns battery)
  then show ?thesis by (simp add: BatteryWidget_init_eq)
qed

lemma main_params:
  "duration (animation (main sw r es)) = 1000
   \<and> easingCurve (animation (main sw r es)) = OutCubic
   \<and> animations (pulse_animation_group (main sw r es)) = [anim_grow, anim_shrink]
   \<and> fixedSize (main sw r es) = (120, 120)"
  using exec_keeps_params[of es "(BatteryWidget_init sw r)\<lparr>visible := True\<rparr>"] init_params[of sw r]
  by (simp add: main_def Let_def)

subsection \<open>The invariant\<close>

lemma cube_unit: "0 \<le> (u::real) \<Longrightarrow> u \<le> 1 \<Longrightarrow> 0 \<le> u * u * u \<and> u * u * u \<le> 1"
proof -
  assume a: "0 \<le> u" "u \<le> 1"
  then have "u * u \<le> 1" by (simp add: mult_le_one)
  with a have "u * u * u \<le> 1" by (simp add: mult_le_one)
  with a show ?thesis by simp
qed

lemma valueForProgress_range: "0 \<le> valueForProgress c t \<and> valueForProgress c t \<le> 1"
proof -
  define u where "u = max 0 (min 1 t)"
  have u: "0 \<le> u" "u \<le> 1" by (simp_all add: u_def)
  have v: "0 \<le> 1 - u" "1 - u \<le> 1" using u by simp_all
  have oc: "(u - 1) * (u - 1) * (u - 1) + 1 = 1 - (1 - u) * (1 - u) * (1 - u)"
    by (simp add: algebra_simps)
  show ?thesis
  proof (cases c)
    case Linear
    then show ?thesis using u by (simp add: valueForProgress_def u_def[symmetric])
  next
    case InCubic
    then show ?thesis using cube_unit[OF u] by (simp add: valueForProgress_def u_def[symmetric])
  next
    case OutCubic
    then show ?thesis using cube_unit[OF v] oc by (simp add: valueForProgress_def u_def[symmetric])
  qed
qed

lemma interpolated_range:
  fixes s e v lo hi :: real
  assumes "0 \<le> v" "v \<le> 1" "lo \<le> s" "s \<le> hi" "lo \<le> e" "e \<le> hi"
  shows "lo \<le> s + (e - s) * v \<and> s + (e - s) * v \<le> hi"
proof -
  have eq: "s + (e - s) * v = (1 - v) * s + v * e" by (simp add: algebra_simps)
  have "(1 - v) * s \<le> (1 - v) * hi" "v * e \<le> v * hi"
    using assms by (simp_all add: mult_left_mono)
  then have up: "(1 - v) * s + v * e \<le> hi" by (simp add: algebra_simps)
  have "(1 - v) * lo \<le> (1 - v) * s" "v * lo \<le> v * e"
    using assms by (simp_all add: mult_left_mono)
  then have "lo \<le> (1 - v) * s + v * e" by (simp add: algebra_simps)
  with up eq show ?thesis by simp
qed

lemma value_at_range:
  assumes "startValue a = Some s" "endValue a = Some e" "0 \<le> s" "s \<le> 100" "0 \<le> e" "e \<le> 100"
  shows "\<exists>x. value_at a t = Some x \<and> 0 \<le> x \<and> x \<le> 100"
  using assms interpolated_range[of "valueForProgress (easingCurve a)
           (if duration a = 0 then 1 else real t / real (duration a))" 0 s 100 e]
        valueForProgress_range
  by (simp add: value_at_def)

lemma pulse_total: "totalDuration [anim_grow, anim_shrink] = 400"
  by (simp add: totalDuration_def anim_grow_def anim_shrink_def)

lemma pulse_value_end: "group_value_at [anim_grow, anim_shrink] 400 = Some 1"
  by (simp add: anim_grow_def anim_shrink_def value_at_def valueForProgress_1)

lemma inv_stdout: "widget_inv (self\<lparr>stdout := x\<rparr>) = widget_inv self"
  by (simp add: widget_inv_def)

lemma inv_visible: "widget_inv (self\<lparr>visible := x\<rparr>) = widget_inv self"
  by (simp add: widget_inv_def)

lemma inv_poll:
  assumes "widget_inv self" "reading_in_range (Returns battery)"
  shows "widget_inv (update_battery_info (Returns battery) self)"
proof -
  have t: "0 \<le> real_of_int (target_of battery) \<and> real_of_int (target_of battery) \<le> 100"
  proof (cases battery)
    case None
    then show ?thesis by (simp add: target_of_def)
  next
    case (Some b)
    then show ?thesis using assms(2) py_int_range[of "percent b"] by (simp add: target_of_def)
  qed
  show ?thesis
    using assms(1) t by (simp add: widget_inv_def poll_eq)
qed

lemma inv_animation_tick:
  assumes "widget_inv self"
  shows "widget_inv (animation_tick dt self)"
proof (cases "state (animation self) = Running")
  case False
  then show ?thesis using assms by (simp add: animation_tick_eq)
next
  case True
  then obtain s e where se: "startValue (animation self) = Some s" "endValue (animation self) = Some e"
      "0 \<le> s" "s \<le> 100" "0 \<le> e" "e \<le> 100"
    using assms by (cases "startValue (animation self)"; cases "endValue (animation self)")
      (auto simp add: widget_inv_def)
  let ?t = "min (currentTime (animation self) + dt) (duration (animation self))"
  obtain x where x: "value_at (animation self) ?t = Some x" "0 \<le> x" "x \<le> 100"
    using value_at_range[OF se, of ?t] by blast
  have fin: "x = e" if "duration (animation self) \<le> currentTime (animation self) + dt"
  proof -
    have "?t = duration (animation self)" using that by simp
    then show ?thesis using x(1) value_at_end[OF se(1,2)] by simp
  qed
  show ?thesis
    using assms True se x fin by (simp add: widget_inv_def animation_tick_eq)
qed

lemma inv_pulse_tick:
  assumes "widget_inv self"
  shows "widget_inv (pulse_tick dt self)"
proof (cases "group_state (pulse_animation_group self) = Running")
  case False
  then show ?thesis using assms by (simp add: pulse_tick_eq)
next
  case True
  have a: "animations (pulse_animation_group self) = [anim_grow, anim_shrink]"
    using assms by (simp add: widget_inv_def)
  show ?thesis
    using assms True a pulse_value_end
    by (simp add: widget_inv_def pulse_tick_eq Let_def pulse_total min_def del: group_value_at.simps)
qed

lemma inv_dispatch:
  assumes "widget_inv self" "event_in_range e"
  shows "widget_inv (dispatch e self)"
proof (cases e)
  case (Timeout r)
  show ?thesis
  proof (cases r)
    case (Raises m)
    then show ?thesis using Timeout assms by (simp add: poll_raises inv_stdout)
  next
    case (Returns battery)
    then show ?thesis using Timeout assms inv_poll by simp
  qed
next
  case (Tick dt)
  then show ?thesis using assms inv_animation_tick inv_pulse_tick by simp
next
  case (MousePress b)
  then show ?thesis using assms by (simp add: mousePressEvent_def close_def inv_visible)
qed

lemma inv_exec:
  "widget_inv self \<Longrightarrow> list_all event_in_range es \<Longrightarrow> widget_inv (exec es self)"
proof (induction es arbitrary: self)
  case Nil
  then show ?case by simp
next
  case (Cons e es)
  then show ?case using inv_dispatch[of self e] by simp
qed

lemma inv_init:
  assumes "reading_in_range r"
  shows "widget_inv (BatteryWidget_init sw r)"
proof (cases r)
  case (Raises m)
  then show ?thesis
    by (simp add: widget_inv_def BatteryWidget_init_def initUI_def initAnimation_eq poll_raises
          Let_def)
next
  case (Returns battery)
  have t: "0 \<le> real_of_int (target_of battery) \<and> real_of_int (target_of battery) \<le> 100"
  proof (cases battery)
    case None
    then show ?thesis by (simp add: target_of_def)
  next
    case (Some b)
    then show ?thesis using assms Returns py_int_range[of "percent b"] by (simp add: target_of_def)
  qed
  then show ?thesis using Returns by (simp add: widget_inv_def BatteryWidget_init_eq)
qed

lemma inv_main:
  "reading_in_range r \<Longrightarrow> list_all event_in_range es \<Longrightarrow> widget_inv (main sw r es)"
  using inv_exec[of "(BatteryWidget_init sw r)\<lparr>visible := True\<rparr>" es] inv_init[of r sw]
  by (simp add: main_def Let_def inv_visible)

subsection \<open>The pulse\<close>

lemma pulse_course:
  "group_value_at [anim_grow, anim_shrink] (min t 400) =
     Some (if t < 150 then 1 + (1.1 - 1) * valueForProgress OutCubic (real t / 150)
           else if t < 400 then 1.1 + (1 - 1.1) * valueForProgress InCubic ((real t - 150) / 250)
           else 1)"
proof -
  consider "t < 150" | "150 \<le> t" "t < 400" | "400 \<le> t" by linarith
  then show ?thesis
  proof cases
    case 1
    then show ?thesis by (simp add: anim_grow_def anim_shrink_def value_at_def)
  next
    case 2
    then have "min (t - 150) 250 = t - 150" "real (t - 150) = real t - 150" by simp_all
    then show ?thesis using 2 by (simp add: anim_grow_def anim_shrink_def value_at_def)
  next
    case 3
    then have "min t 400 = 400" by simp
    then show ?thesis using 3
      by (simp add: anim_grow_def anim_shrink_def value_at_def valueForProgress_1)
  qed
qed

lemma pulse_tick_from_start:
  assumes "group_state (pulse_animation_group self) = Running"
    "group_currentTime (pulse_animation_group self) = 0"
    "animations (pulse_animation_group self) = [anim_grow, anim_shrink]"
  shows "pulse_scale (pulse_tick t self) =
           (if t < 150 then 1 + (1.1 - 1) * valueForProgress OutCubic (real t / 150)
            else if t < 400 then 1.1 + (1 - 1.1) * valueForProgress InCubic ((real t - 150) / 250)
            else 1)
         \<and> group_state (pulse_animation_group (pulse_tick t self)) =
           (if t < 400 then Running else Stopped)"
  using assms pulse_course[of t]
  by (simp add: pulse_tick_eq Let_def pulse_total del: group_value_at.simps)

lemma plugged_sync_dispatch:
  "prev_plugged self = plugged self \<Longrightarrow> prev_plugged (dispatch e self) = plugged (dispatch e self)"
proof (cases e)
  case (Timeout r)
  assume "prev_plugged self = plugged self"
  then show ?thesis using Timeout by (cases r) (simp_all add: poll_raises poll_eq)
next
  case (Tick dt)
  assume "prev_plugged self = plugged self"
  then show ?thesis using Tick by (simp add: pulse_tick_eq animation_tick_eq Let_def)
next
  case (MousePress b)
  assume "prev_plugged self = plugged self"
  then show ?thesis using MousePress by (simp add: mousePressEvent_def close_def)
qed

lemma plugged_sync_exec:
  "prev_plugged self = plugged self \<Longrightarrow> prev_plugged (exec es self) = plugged (exec es self)"
proof (induction es arbitrary: self)
  case Nil
  then show ?case by simp
next
  case (Cons e es)
  then show ?case using plugged_sync_dispatch[of self e] by simp
qed

lemma plugged_sync_main: "prev_plugged (main sw r es) = plugged (main sw r es)"
proof -
  have "prev_plugged (BatteryWidget_init sw r) = plugged (BatteryWidget_init sw r)"
  proof (cases r)
    case (Raises m)
    then show ?thesis
      by (simp add: BatteryWidget_init_def initUI_def initAnimation_eq poll_raises Let_def)
  next
    case (Returns battery)
    then show ?thesis by (simp add: BatteryWidget_init_eq)
  qed
  then show ?thesis
    using plugged_sync_exec[of "(BatteryWidget_init sw r)\<lparr>visible := True\<rparr>" es]
    by (simp add: main_def Let_def)
qed

section \<open>The claims\<close>

text \<open>
  C1. A successful poll starts the pulse (the group runs from time 0) exactly when the
  plugged flag just read is true, the previous plugged flag is false and no pulse is in
  progress; otherwise the group is left as it is, so a true-to-true repeat starts nothing and
  a pulse in progress is not restarted, and in both cases the pulse scale is not touched.
  The previous plugged flag is the flag of the last successful poll: a successful poll stores
  the flag it read, and in every state the program reaches the two flags agree.
  The pulse is the sequence \<open>initAnimation\<close> builds and no event changes: 150 ms from 1.0 to
  1.1 with ease-out-cubic, then 250 ms from 1.1 to 1.0 with ease-in-cubic. Once started, the
  pulse scale \<open>t\<close> ms later follows the first curve below 150 ms, the second below 400 ms, and
  from 400 ms on it is 1 and the group has stopped; a group that is not running is left
  alone by the clock, so the pulse plays once.
\<close>
theorem pulse_on_plug_in:
  "pulse_animation_group (update_battery_info (Returns battery) self) =
     (if truthy (case battery of None \<Rightarrow> Some False | Some b \<Rightarrow> power_plugged b)
         \<and> \<not> truthy (prev_plugged self)
         \<and> group_state (pulse_animation_group self) \<noteq> Running
      then (pulse_animation_group self)\<lparr>group_state := Running, group_currentTime := 0\<rparr>
      else pulse_animation_group self)
   \<and> (\<not> (truthy (case battery of None \<Rightarrow> Some False | Some b \<Rightarrow> power_plugged b)
           \<and> \<not> truthy (prev_plugged self)) \<longrightarrow>
        pulse_scale (update_battery_info (Returns battery) self) = pulse_scale self)
   \<and> (group_state (pulse_animation_group self) = Running \<longrightarrow>
        pulse_scale (update_battery_info (Returns battery) self) = pulse_scale self)
   \<and> prev_plugged (update_battery_info (Returns battery) self) =
        (case battery of None \<Rightarrow> Some False | Some b \<Rightarrow> power_plugged b)
   \<and> prev_plugged (main sw r es) = plugged (main sw r es)
   \<and> pulse_animation_group (initAnimation self) =
        \<lparr>animations =
           [\<lparr>duration = 150, easingCurve = OutCubic, startValue = Some 1.0, endValue = Some 1.1,
             state = Stopped, currentTime = 0\<rparr>,
            \<lparr>duration = 250, easingCurve = InCubic, startValue = Some 1.1, endValue = Some 1.0,
             state = Stopped, currentTime = 0\<rparr>],
         group_state = Stopped, group_currentTime = 0\<rparr>
   \<and> animations (pulse_animation_group (main sw r es)) =
        animations (pulse_animation_group (initAnimation self))
   \<and> (truthy (power_plugged b) \<and> \<not> truthy (prev_plugged (main sw r es))
        \<and> group_state (pulse_animation_group (main sw r es)) \<noteq> Running \<longrightarrow>
        pulse_scale (dispatch (Tick t) (update_battery_info (Returns (Some b)) (main sw r es))) =
          (if t < 150 then 1 + (1.1 - 1) * valueForProgress OutCubic (real t / 150)
           else if t < 400 then 1.1 + (1 - 1.1) * valueForProgress InCubic ((real t - 150) / 250)
           else 1)
        \<and> group_state (pulse_animation_group
             (dispatch (Tick t) (update_battery_info (Returns (Some b)) (main sw r es)))) =
          (if t < 400 then Running else Stopped))
   \<and> (group_state (pulse_animation_group self) \<noteq> Running \<longrightarrow>
        pulse_scale (dispatch (Tick t) self) = pulse_scale self
        \<and> pulse_animation_group (dispatch (Tick t) self) = pulse_animation_group self)"
proof -
  let ?w = "main sw r es"
  let ?p = "update_battery_info (Returns (Some b)) ?w"
  have a: "animations (pulse_animation_group ?w) = [anim_grow, anim_shrink]"
    using main_params[of sw r es] by simp
  have course: "pulse_scale (dispatch (Tick t) ?p) =
          (if t < 150 then 1 + (1.1 - 1) * valueForProgress OutCubic (real t / 150)
           else if t < 400 then 1.1 + (1 - 1.1) * valueForProgress InCubic ((real t - 150) / 250)
           else 1)
        \<and> group_state (pulse_animation_group (dispatch (Tick t) ?p)) =
          (if t < 400 then Running else Stopped)"
    if h: "truthy (power_plugged b)" "\<not> truthy (prev_plugged ?w)"
          "group_state (pulse_animation_group ?w) \<noteq> Running"
  proof -
    have g: "pulse_animation_group ?p =
               (pulse_animation_group ?w)\<lparr>group_state := Running, group_currentTime := 0\<rparr>"
      using h by (simp add: poll_eq plugged_of_def)
    have "group_state (pulse_animation_group (animation_tick t ?p)) = Running"
         "group_currentTime (pulse_animation_group (animation_tick t ?p)) = 0"
         "animations (pulse_animation_group (animation_tick t ?p)) = [anim_grow, anim_shrink]"
      using g a by (simp_all add: animation_tick_keeps)
    then show ?thesis using pulse_tick_from_start[of "animation_tick t ?p" t] by simp
  qed
  have still: "pulse_scale (dispatch (Tick t) self) = pulse_scale self
        \<and> pulse_animation_group (dispatch (Tick t) self) = pulse_animation_group self"
    if "group_state (pulse_animation_group self) \<noteq> Running"
    using that by (simp add: pulse_tick_eq animation_tick_keeps)
  have sync: "prev_plugged ?w = plugged ?w" by (rule plugged_sync_main)
  have i: "pulse_animation_group (initAnimation self) =
        \<lparr>animations = [anim_grow, anim_shrink], group_state = Stopped, group_currentTime = 0\<rparr>"
    by (simp add: initAnimation_eq)
  have poll: "pulse_animation_group (update_battery_info (Returns battery) self) =
     (if truthy (plugged_of battery) \<and> \<not> truthy (prev_plugged self)
         \<and> group_state (pulse_animation_group self) \<noteq> Running
      then (pulse_animation_group self)\<lparr>group_state := Running, group_currentTime := 0\<rparr>
      else pulse_animation_group self)"
    "\<not> (truthy (plugged_of battery) \<and> \<not> truthy (prev_plugged self)) \<longrightarrow>
        pulse_scale (update_battery_info (Returns battery) self) = pulse_scale self"
    "group_state (pulse_animation_group self) = Running \<longrightarrow>
        pulse_scale (update_battery_info (Returns battery) self) = pulse_scale self"
    "prev_plugged (update_battery_info (Returns battery) self) = plugged_of battery"
    by (simp_all add: poll_eq)
  have e: "[anim_grow, anim_shrink] =
           [\<lparr>duration = 150, easingCurve = OutCubic, startValue = Some 1.0, endValue = Some 1.1,
             state = Stopped, currentTime = 0\<rparr>,
            \<lparr>duration = 250, easingCurve = InCubic, startValue = Some 1.1, endValue = Some 1.0,
             state = Stopped, currentTime = 0\<rparr>]"
    by (simp add: anim_grow_def anim_shrink_def)
  from poll have poll': "pulse_animation_group (update_battery_info (Returns battery) self) =
     (if truthy (case battery of None \<Rightarrow> Some False | Some b \<Rightarrow> power_plugged b)
         \<and> \<not> truthy (prev_plugged self)
         \<and> group_state (pulse_animation_group self) \<noteq> Running
      then (pulse_animation_group self)\<lparr>group_state := Running, group_currentTime := 0\<rparr>
      else pulse_animation_group self)"
    "\<not> (truthy (case battery of None \<Rightarrow> Some False | Some b \<Rightarrow> power_plugged b)
           \<and> \<not> truthy (prev_plugged self)) \<longrightarrow>
        pulse_scale (update_battery_info (Returns battery) self) = pulse_scale self"
    "prev_plugged (update_battery_info (Returns battery) self) =
        (case battery of None \<Rightarrow> Some False | Some b \<Rightarrow> power_plugged b)"
    unfolding plugged_of_def by simp_all
  show ?thesis
    using poll' poll(3) sync i a e course still by simp
qed


theorem pulse_on_plug_in_witness:
  "truthy (prev_plugged (main 1920 (Returns (Some \<lparr>percent = 80, power_plugged = Some True\<rparr>)) [Tick 100]))
   \<and> group_state (pulse_animation_group
         (main 1920 (Returns (Some \<lparr>percent = 80, power_plugged = Some True\<rparr>)) [Tick 100])) = Running
   \<and> pulse_animation_group (update_battery_info (Returns (Some \<lparr>percent = 81, power_plugged = Some True\<rparr>))
         (main 1920 (Returns (Some \<lparr>percent = 80, power_plugged = Some True\<rparr>)) [Tick 100])) =
       \<lparr>animations = [anim_grow, anim_shrink], group_state = Running, group_currentTime = 100\<rparr>
   \<and> pulse_scale (update_battery_info (Returns (Some \<lparr>percent = 81, power_plugged = Some True\<rparr>))
         (main 1920 (Returns (Some \<lparr>percent = 80, power_plugged = Some True\<rparr>)) [Tick 100])) = 148 / 135
   \<and> truthy (Some True)
   \<and> \<not> truthy (prev_plugged (main 1920 (Returns (Some \<lparr>percent = 50, power_plugged = Some False\<rparr>)) []))
   \<and> group_state (pulse_animation_group
         (main 1920 (Returns (Some \<lparr>percent = 50, power_plugged = Some False\<rparr>)) [])) \<noteq> Running
   \<and> pulse_scale (dispatch (Tick 75) (update_battery_info (Returns (Some \<lparr>percent = 50, power_plugged = Some True\<rparr>))
         (main 1920 (Returns (Some \<lparr>percent = 50, power_plugged = Some False\<rparr>)) []))) = 1.0875
   \<and> pulse_scale (dispatch (Tick 400) (update_battery_info (Returns (Some \<lparr>percent = 50, power_plugged = Some True\<rparr>))
         (main 1920 (Returns (Some \<lparr>percent = 50, power_plugged = Some False\<rparr>)) []))) = 1
   \<and> group_state (pulse_animation_group (dispatch (Tick 400)
         (update_battery_info (Returns (Some \<lparr>percent = 50, power_plugged = Some True\<rparr>))
         (main 1920 (Returns (Some \<lparr>percent = 50, power_plugged = Some False\<rparr>)) [])))) = Stopped
   \<and> pulse_scale (dispatch (Tick 50) (main 1920 (Returns (Some \<lparr>percent = 50, power_plugged = Some False\<rparr>)) [])) = 1"
proof -
  have w1: "main 1920 (Returns (Some \<lparr>percent = 80, power_plugged = Some True\<rparr>)) [Tick 100] =
   \<lparr>animated_percent = 21.68, pulse_scale = 148 / 135, plugged = Some True, prev_plugged = Some True,
      animation = \<lparr>duration = 1000, easingCurve = OutCubic, startValue = Some 0,
                    endValue = Some 80, state = Running, currentTime = 100\<rparr>,
      pulse_animation_group =
        \<lparr>animations = [anim_grow, anim_shrink], group_state = Running, group_currentTime = 100\<rparr>,
      timer_interval = Some 1000, fixedSize = (120, 120),
      windowFlags = [FramelessWindowHint, Tool], translucentBackground = True,
      position = (1780, 30), visible = True, stdout = []\<rparr>"
    by (simp add: run_simps)
  have w2: "main 1920 (Returns (Some \<lparr>percent = 50, power_plugged = Some False\<rparr>)) [] =
   \<lparr>animated_percent = 0, pulse_scale = 1, plugged = Some False, prev_plugged = Some False,
      animation = \<lparr>duration = 1000, easingCurve = OutCubic, startValue = Some 0,
                    endValue = Some 50, state = Running, currentTime = 0\<rparr>,
      pulse_animation_group =
        \<lparr>animations = [anim_grow, anim_shrink], group_state = Stopped, group_currentTime = 0\<rparr>,
      timer_interval = Some 1000, fixedSize = (120, 120),
      windowFlags = [FramelessWindowHint, Tool], translucentBackground = True,
      position = (1780, 30), visible = True, stdout = []\<rparr>"
    by (simp add: run_simps)
  show ?thesis
    using pulse_on_plug_in
            [where self = "main 1920 (Returns (Some \<lparr>percent = 80, power_plugged = Some True\<rparr>)) [Tick 100]"
               and battery = "Some \<lparr>percent = 81, power_plugged = Some True\<rparr>"
               and sw = 1920 and r = "Returns (Some \<lparr>percent = 50, power_plugged = Some False\<rparr>)"
               and es = "[]" and b = "\<lparr>percent = 50, power_plugged = Some True\<rparr>" and t = 75]
          pulse_on_plug_in
            [where self = "main 1920 (Returns (Some \<lparr>percent = 50, power_plugged = Some False\<rparr>)) []"
               and battery = "Some \<lparr>percent = 81, power_plugged = Some True\<rparr>"
               and sw = 1920 and r = "Returns (Some \<lparr>percent = 50, power_plugged = Some False\<rparr>)"
               and es = "[]" and b = "\<lparr>percent = 50, power_plugged = Some True\<rparr>" and t = 400]
          pulse_on_plug_in
            [where self = "main 1920 (Returns (Some \<lparr>percent = 50, power_plugged = Some False\<rparr>)) []"
               and battery = "Some \<lparr>percent = 81, power_plugged = Some True\<rparr>"
               and sw = 1920 and r = "Returns (Some \<lparr>percent = 50, power_plugged = Some False\<rparr>)"
               and es = "[]" and b = "\<lparr>percent = 50, power_plugged = Some True\<rparr>" and t = 50]
    unfolding w1 w2
    by (simp add: truthy_def valueForProgress_def)
qed

text \<open>
  C2, as the claim states it, fails for a fractional reading: after a reading of 99.9 the
  end value is not 99.9, and once the animation has completed the displayed percent is not
  99.9 either.
\<close>
theorem poll_target_counterexample:
  "(0 :: real) \<le> 99.9 \<and> (99.9 :: real) \<le> 100
   \<and> endValue (animation (main 1920 (Returns None)
        [Timeout (Returns (Some \<lparr>percent = 99.9, power_plugged = Some False\<rparr>))])) \<noteq> Some 99.9
   \<and> state (animation (main 1920 (Returns None)
        [Timeout (Returns (Some \<lparr>percent = 99.9, power_plugged = Some False\<rparr>)), Tick 1000])) = Stopped
   \<and> animated_percent (main 1920 (Returns None)
        [Timeout (Returns (Some \<lparr>percent = 99.9, power_plugged = Some False\<rparr>)), Tick 1000]) \<noteq> 99.9"
proof -
  let ?q = "Returns (Some \<lparr>percent = 99.9, power_plugged = Some False\<rparr>)"
  have w1: "main 1920 (Returns None) [Timeout ?q] =
   \<lparr>animated_percent = 0, pulse_scale = 1, plugged = Some False, prev_plugged = Some False,
    animation = \<lparr>duration = 1000, easingCurve = OutCubic, startValue = Some 0,
                  endValue = Some 99, state = Running, currentTime = 0\<rparr>,
    pulse_animation_group =
      \<lparr>animations = [anim_grow, anim_shrink], group_state = Stopped, group_currentTime = 0\<rparr>,
    timer_interval = Some 1000, fixedSize = (120, 120),
    windowFlags = [FramelessWindowHint, Tool], translucentBackground = True,
    position = (1780, 30), visible = True, stdout = []\<rparr>"
    by (simp add: run_simps)
  have w2: "main 1920 (Returns None) [Timeout ?q, Tick 1000] =
   \<lparr>animated_percent = 99, pulse_scale = 1, plugged = Some False, prev_plugged = Some False,
    animation = \<lparr>duration = 1000, easingCurve = OutCubic, startValue = Some 0,
                  endValue = Some 99, state = Stopped, currentTime = 1000\<rparr>,
    pulse_animation_group =
      \<lparr>animations = [anim_grow, anim_shrink], group_state = Stopped, group_currentTime = 0\<rparr>,
    timer_interval = Some 1000, fixedSize = (120, 120),
    windowFlags = [FramelessWindowHint, Tool], translucentBackground = True,
    position = (1780, 30), visible = True, stdout = []\<rparr>"
    using main_step [OF w1, of "Tick 1000"] by (simp add: step_simps)
  show ?thesis using w1 w2 by simp
qed

text \<open>
  C2, amended. In every state the program reaches, a successful poll leaves the percent
  animation running from time 0, whatever it was doing before, with 1000 ms duration and
  ease-out-cubic easing, the displayed percent as start value and the reading truncated to
  an integer as end value (0 without a battery); the displayed percent itself is not moved by
  the poll. If only clock ticks follow, adding up to 1000 ms or more, the animation has
  stopped and the displayed percent equals that integer, which is the reading itself when the
  reading is a whole number.
\<close>

theorem poll_restarts_percent_animation:
  "animation (update_battery_info (Returns battery) (main sw r es)) =
     \<lparr>duration = 1000, easingCurve = OutCubic,
      startValue = Some (animated_percent (main sw r es)),
      endValue = Some (real_of_int (case battery of None \<Rightarrow> 0 | Some b \<Rightarrow> py_int (percent b))),
      state = Running, currentTime = 0\<rparr>
   \<and> animated_percent (update_battery_info (Returns battery) (main sw r es)) =
       animated_percent (main sw r es)
   \<and> (ds \<noteq> [] \<and> 1000 \<le> sum_list ds \<longrightarrow>
        animated_percent (fold dispatch (map Tick ds) (update_battery_info (Returns battery) (main sw r es))) =
          real_of_int (case battery of None \<Rightarrow> 0 | Some b \<Rightarrow> py_int (percent b))
        \<and> state (animation (fold dispatch (map Tick ds)
             (update_battery_info (Returns battery) (main sw r es)))) = Stopped)
   \<and> (battery = Some b \<and> percent b \<in> \<int> \<longrightarrow>
        real_of_int (case battery of None \<Rightarrow> 0 | Some b \<Rightarrow> py_int (percent b)) = percent b)"
proof -
  let ?w = "main sw r es"
  have p: "duration (animation ?w) = 1000" "easingCurve (animation ?w) = OutCubic"
    using main_params[of sw r es] by simp_all
  have a: "animation (update_battery_info (Returns battery) ?w) =
     \<lparr>duration = 1000, easingCurve = OutCubic, startValue = Some (animated_percent ?w),
      endValue = Some (real_of_int (target_of battery)), state = Running, currentTime = 0\<rparr>"
    using p by (simp add: poll_eq)
  have i: "real_of_int (py_int (percent b)) = percent b" if "percent b \<in> \<int>"
    using that by (auto simp add: py_int_def elim!: Ints_cases)
  show ?thesis
    using a p i poll_then_ticks[of ds ?w battery]
    by (simp add: poll_eq target_of_def)
qed

theorem poll_restarts_percent_animation_witness:
  "(80 :: real) \<in> \<int>
   \<and> animation (update_battery_info (Returns (Some \<lparr>percent = 80, power_plugged = Some False\<rparr>))
        (main 1920 (Returns (Some \<lparr>percent = 20, power_plugged = Some False\<rparr>)) [Tick 100])) =
       \<lparr>duration = 1000, easingCurve = OutCubic, startValue = Some 5.42, endValue = Some 80,
        state = Running, currentTime = 0\<rparr>
   \<and> animated_percent (fold dispatch (map Tick [250, 750])
        (update_battery_info (Returns (Some \<lparr>percent = 80, power_plugged = Some False\<rparr>))
           (main 1920 (Returns (Some \<lparr>percent = 20, power_plugged = Some False\<rparr>)) [Tick 100]))) = 80"
  using poll_restarts_percent_animation
          [where battery = "Some \<lparr>percent = 80, power_plugged = Some False\<rparr>" and sw = 1920
             and r = "Returns (Some \<lparr>percent = 20, power_plugged = Some False\<rparr>)"
             and es = "[Tick 100]" and ds = "[250, 750]"
             and b = "\<lparr>percent = 80, power_plugged = Some False\<rparr>"]
  by (simp add: run_simps)

text \<open>
  C3. Every render takes its colour pair from the current state: green when plugged;
  otherwise red below 20 displayed percent, amber below 50, cyan from 50 on. Both gradients
  that are drawn (the progress arc's pen and the glyph's fill) carry that pair. So a
  displayed 15 (not plugged) is red, 35 amber, 75 cyan, and plugged is green whatever the
  percent.
\<close>

theorem render_color_pair:
  "gradient_colors (paintEvent self) =
     (let pair = (if truthy (plugged self) then [ColorName ''#69F0AE'', ColorName ''#00C853'']
                  else if animated_percent self < 20 then [ColorName ''#F44336'', ColorName ''#D32F2F'']
                  else if animated_percent self < 50 then [ColorName ''#FFC107'', ColorName ''#FFA000'']
                  else [ColorName ''#00E5FF'', ColorName ''#00B8D4''])
      in [pair, pair])
   \<and> (\<not> truthy (plugged self) \<and> animated_percent self = 15 \<longrightarrow>
        gradient_colors (paintEvent self) =
          [[ColorName ''#F44336'', ColorName ''#D32F2F''], [ColorName ''#F44336'', ColorName ''#D32F2F'']])
   \<and> (\<not> truthy (plugged self) \<and> animated_percent self = 35 \<longrightarrow>
        gradient_colors (paintEvent self) =
          [[ColorName ''#FFC107'', ColorName ''#FFA000''], [ColorName ''#FFC107'', ColorName ''#FFA000'']])
   \<and> (\<not> truthy (plugged self) \<and> animated_percent self = 75 \<longrightarrow>
        gradient_colors (paintEvent self) =
          [[ColorName ''#00E5FF'', ColorName ''#00B8D4''], [ColorName ''#00E5FF'', ColorName ''#00B8D4'']])
   \<and> (truthy (plugged self) \<longrightarrow>
        gradient_colors (paintEvent self) =
          [[ColorName ''#69F0AE'', ColorName ''#00C853''], [ColorName ''#69F0AE'', ColorName ''#00C853'']])"
  by (simp add: gradient_colors_paintEvent color_pair_def Let_def)

theorem render_color_pair_witness:
  "gradient_colors (paintEvent (main 1920 (Returns (Some \<lparr>percent = 15, power_plugged = Some False\<rparr>)) [Tick 1000])) =
     [[ColorName ''#F44336'', ColorName ''#D32F2F''], [ColorName ''#F44336'', ColorName ''#D32F2F'']]
   \<and> gradient_colors (paintEvent (main 1920 (Returns (Some \<lparr>percent = 35, power_plugged = Some False\<rparr>)) [Tick 1000])) =
     [[ColorName ''#FFC107'', ColorName ''#FFA000''], [ColorName ''#FFC107'', ColorName ''#FFA000'']]
   \<and> gradient_colors (paintEvent (main 1920 (Returns (Some \<lparr>percent = 75, power_plugged = Some False\<rparr>)) [Tick 1000])) =
     [[ColorName ''#00E5FF'', ColorName ''#00B8D4''], [ColorName ''#00E5FF'', ColorName ''#00B8D4'']]
   \<and> gradient_colors (paintEvent (main 1920 (Returns (Some \<lparr>percent = 15, power_plugged = Some True\<rparr>)) [Tick 1000])) =
     [[ColorName ''#69F0AE'', ColorName ''#00C853''], [ColorName ''#69F0AE'', ColorName ''#00C853'']]"
  using render_color_pair [of "main 1920 (Returns (Some \<lparr>percent = 15, power_plugged = Some False\<rparr>)) [Tick 1000]"]
        render_color_pair [of "main 1920 (Returns (Some \<lparr>percent = 35, power_plugged = Some False\<rparr>)) [Tick 1000]"]
        render_color_pair [of "main 1920 (Returns (Some \<lparr>percent = 75, power_plugged = Some False\<rparr>)) [Tick 1000]"]
        render_color_pair [of "main 1920 (Returns (Some \<lparr>percent = 15, power_plugged = Some True\<rparr>)) [Tick 1000]"]
  by (simp add: run_simps)

text \<open>
  C4. When the sensor read raises during a poll, the poll prints one line and changes
  nothing else: displayed percent, plugged flag, previous plugged flag, both animations,
  pulse scale, timer and visibility are as before; the method returns normally; and the
  event loop goes on, so that whatever follows runs as if the failed poll had not happened
  (the printed lines apart).
\<close>

theorem failed_poll_is_skipped:
  "update_battery_info (Raises e) self =
     self\<lparr>stdout := stdout self @ [''Error fetching battery info: '' @ e]\<rparr>
   \<and> animated_percent (update_battery_info (Raises e) self) = animated_percent self
   \<and> plugged (update_battery_info (Raises e) self) = plugged self
   \<and> prev_plugged (update_battery_info (Raises e) self) = prev_plugged self
   \<and> animation (update_battery_info (Raises e) self) = animation self
   \<and> pulse_animation_group (update_battery_info (Raises e) self) = pulse_animation_group self
   \<and> pulse_scale (update_battery_info (Raises e) self) = pulse_scale self
   \<and> timer_interval (update_battery_info (Raises e) self) = timer_interval self
   \<and> visible (update_battery_info (Raises e) self) = visible self
   \<and> (exec (Timeout (Raises e) # es) self)\<lparr>stdout := []\<rparr> = (exec es self)\<lparr>stdout := []\<rparr>"
proof -
  have "(exec (Timeout (Raises e) # es) self)\<lparr>stdout := []\<rparr> = (exec es self)\<lparr>stdout := []\<rparr>"
    using exec_stdout by (simp add: poll_raises)
  then show ?thesis by (simp add: poll_raises)
qed

theorem failed_poll_is_skipped_witness:
  "update_battery_info (Raises ''no sensor'') (BatteryWidget_init 1920 (Returns None)) =
     (BatteryWidget_init 1920 (Returns None))\<lparr>stdout := [''Error fetching battery info: no sensor'']\<rparr>
   \<and> animation (update_battery_info (Raises ''no sensor'') (BatteryWidget_init 1920 (Returns None))) =
       \<lparr>duration = 1000, easingCurve = OutCubic, startValue = Some 0, endValue = Some 0,
        state = Running, currentTime = 0\<rparr>"
  using failed_poll_is_skipped [of "''no sensor''" "BatteryWidget_init 1920 (Returns None)" "[]"]
  by (simp add: BatteryWidget_init_eq target_of_def)

text \<open>
  C5. When the sensor reports no battery (\<open>None\<close>, no exception), the body of the \<open>try\<close>
  runs to its end: the plugged flag and the previous plugged flag become \<open>False\<close>, no pulse
  starts, nothing is printed, and the percent animation is restarted from the displayed
  value towards 0, which the displayed percent reaches once the animation's duration has
  gone by.
\<close>
theorem no_battery_is_zero_unplugged:
  "try_block (Returns None) self = Inr (update_battery_info (Returns None) self)
   \<and> plugged (update_battery_info (Returns None) self) = Some False
   \<and> prev_plugged (update_battery_info (Returns None) self) = Some False
   \<and> animation (update_battery_info (Returns None) self) =
       (animation self)\<lparr>startValue := Some (animated_percent self), endValue := Some 0,
                        state := Running, currentTime := 0\<rparr>
   \<and> pulse_animation_group (update_battery_info (Returns None) self) = pulse_animation_group self
   \<and> pulse_scale (update_battery_info (Returns None) self) = pulse_scale self
   \<and> stdout (update_battery_info (Returns None) self) = stdout self
   \<and> (ds \<noteq> [] \<and> duration (animation self) \<le> sum_list ds \<longrightarrow>
        animated_percent (fold dispatch (map Tick ds) (update_battery_info (Returns None) self)) = 0)"
proof -
  have "try_block (Returns None) self = Inr (update_battery_info (Returns None) self)"
    by (simp add: update_battery_info_def try_block_def Let_def)
  then show ?thesis
    using poll_then_ticks[of ds self None]
    by (simp add: poll_eq target_of_def plugged_of_def truthy_def)
qed

theorem no_battery_is_zero_unplugged_witness:
  "plugged (main 1920 (Returns (Some \<lparr>percent = 80, power_plugged = Some True\<rparr>))
              [Tick 1000, Timeout (Returns None)]) = Some False
   \<and> animated_percent (main 1920 (Returns (Some \<lparr>percent = 80, power_plugged = Some True\<rparr>))
              [Tick 1000, Timeout (Returns None)]) = 80
   \<and> animated_percent (fold dispatch (map Tick [300, 700])
        (update_battery_info (Returns None)
           (main 1920 (Returns (Some \<lparr>percent = 80, power_plugged = Some True\<rparr>)) [Tick 1000]))) = 0"
  using no_battery_is_zero_unplugged
          [where self = "main 1920 (Returns (Some \<lparr>percent = 80, power_plugged = Some True\<rparr>)) [Tick 1000]"
             and ds = "[300, 700]"]
  by (simp add: run_simps)

text \<open>
  C6. With every percent reading in \<open>[0, 100]\<close>, in every state the program reaches the
  displayed percent lies in \<open>[0, 100]\<close>; when the percent animation has completed (it is
  stopped and has an end value) the displayed percent is that end value, itself in
  \<open>[0, 100]\<close>; and when the pulse has completed (the group is stopped) the pulse scale is
  exactly 1.
\<close>
theorem animation_completion_invariant:
  "reading_in_range r \<Longrightarrow> list_all event_in_range es \<Longrightarrow>
     0 \<le> animated_percent (main sw r es) \<and> animated_percent (main sw r es) \<le> 100
     \<and> (state (animation (main sw r es)) = Stopped \<and> endValue (animation (main sw r es)) = Some e \<longrightarrow>
          animated_percent (main sw r es) = e \<and> 0 \<le> e \<and> e \<le> 100)
     \<and> (group_state (pulse_animation_group (main sw r es)) = Stopped \<longrightarrow> pulse_scale (main sw r es) = 1)"
proof -
  assume "reading_in_range r" "list_all event_in_range es"
  then have "widget_inv (main sw r es)" by (rule inv_main)
  then show ?thesis by (auto simp add: widget_inv_def)
qed

theorem animation_completion_invariant_witness:
  "reading_in_range (Returns (Some \<lparr>percent = 80, power_plugged = Some True\<rparr>))
   \<and> list_all event_in_range
        [Tick 100, Timeout (Returns (Some \<lparr>percent = 55.5, power_plugged = Some False\<rparr>)), Tick 400, Tick 700]
   \<and> state (animation (main 1920 (Returns (Some \<lparr>percent = 80, power_plugged = Some True\<rparr>))
        [Tick 100, Timeout (Returns (Some \<lparr>percent = 55.5, power_plugged = Some False\<rparr>)), Tick 400, Tick 700])) = Stopped
   \<and> endValue (animation (main 1920 (Returns (Some \<lparr>percent = 80, power_plugged = Some True\<rparr>))
        [Tick 100, Timeout (Returns (Some \<lparr>percent = 55.5, power_plugged = Some False\<rparr>)), Tick 400, Tick 700])) = Some 55
   \<and> animated_percent (main 1920 (Returns (Some \<lparr>percent = 80, power_plugged = Some True\<rparr>))
        [Tick 100, Timeout (Returns (Some \<lparr>percent = 55.5, power_plugged = Some False\<rparr>)), Tick 400, Tick 700]) = 55
   \<and> group_state (pulse_animation_group (main 1920 (Returns (Some \<lparr>percent = 80, power_plugged = Some True\<rparr>))
        [Tick 100, Timeout (Returns (Some \<lparr>percent = 55.5, power_plugged = Some False\<rparr>)), Tick 400, Tick 700])) = Stopped
   \<and> pulse_scale (main 1920 (Returns (Some \<lparr>percent = 80, power_plugged = Some True\<rparr>))
        [Tick 100, Timeout (Returns (Some \<lparr>percent = 55.5, power_plugged = Some False\<rparr>)), Tick 400, Tick 700]) = 1"
proof -
  let ?r = "Returns (Some \<lparr>percent = 80, power_plugged = Some True\<rparr>)"
  let ?q = "Returns (Some \<lparr>percent = 55.5, power_plugged = Some False\<rparr>)"
  have w1: "main 1920 ?r [Tick 100] =
   \<lparr>animated_percent = 21.68, pulse_scale = 148 / 135, plugged = Some True, prev_plugged = Some True,
    animation = \<lparr>duration = 1000, easingCurve = OutCubic, startValue = Some 0,
                  endValue = Some 80, state = Running, currentTime = 100\<rparr>,
    pulse_animation_group =
      \<lparr>animations = [anim_grow, anim_shrink], group_state = Running, group_currentTime = 100\<rparr>,
    timer_interval = Some 1000, fixedSize = (120, 120),
    windowFlags = [FramelessWindowHint, Tool], translucentBackground = True,
    position = (1780, 30), visible = True, stdout = []\<rparr>"
    by (simp add: run_simps)
  have w2: "main 1920 ?r [Tick 100, Timeout ?q] =
   \<lparr>animated_percent = 21.68, pulse_scale = 148 / 135, plugged = Some False, prev_plugged = Some False,
    animation = \<lparr>duration = 1000, easingCurve = OutCubic, startValue = Some 21.68,
                  endValue = Some 55, state = Running, currentTime = 0\<rparr>,
    pulse_animation_group =
      \<lparr>animations = [anim_grow, anim_shrink], group_state = Running, group_currentTime = 100\<rparr>,
    timer_interval = Some 1000, fixedSize = (120, 120),
    windowFlags = [FramelessWindowHint, Tool], translucentBackground = True,
    position = (1780, 30), visible = True, stdout = []\<rparr>"
    using main_step [OF w1, of "Timeout ?q"] by (simp add: step_simps)
  have w3: "main 1920 ?r [Tick 100, Timeout ?q, Tick 400] =
   \<lparr>animated_percent = 47.80288, pulse_scale = 1, plugged = Some False, prev_plugged = Some False,
    animation = \<lparr>duration = 1000, easingCurve = OutCubic, startValue = Some 21.68,
                  endValue = Some 55, state = Running, currentTime = 400\<rparr>,
    pulse_animation_group =
      \<lparr>animations = [anim_grow, anim_shrink], group_state = Stopped, group_currentTime = 400\<rparr>,
    timer_interval = Some 1000, fixedSize = (120, 120),
    windowFlags = [FramelessWindowHint, Tool], translucentBackground = True,
    position = (1780, 30), visible = True, stdout = []\<rparr>"
    using main_step [OF w2, of "Tick 400"] by (simp add: step_simps)
  have w4: "main 1920 ?r [Tick 100, Timeout ?q, Tick 400, Tick 700] =
   \<lparr>animated_percent = 55, pulse_scale = 1, plugged = Some False, prev_plugged = Some False,
    animation = \<lparr>duration = 1000, easingCurve = OutCubic, startValue = Some 21.68,
                  endValue = Some 55, state = Stopped, currentTime = 1000\<rparr>,
    pulse_animation_group =
      \<lparr>animations = [anim_grow, anim_shrink], group_state = Stopped, group_currentTime = 400\<rparr>,
    timer_interval = Some 1000, fixedSize = (120, 120),
    windowFlags = [FramelessWindowHint, Tool], translucentBackground = True,
    position = (1780, 30), visible = True, stdout = []\<rparr>"
    using main_step [OF w3, of "Tick 700"] by (simp add: step_simps)
  have s: "state (animation (main 1920 (Returns (Some \<lparr>percent = 80, power_plugged = Some True\<rparr>))
        [Tick 100, Timeout (Returns (Some \<lparr>percent = 55.5, power_plugged = Some False\<rparr>)), Tick 400, Tick 700])) = Stopped"
    "endValue (animation (main 1920 (Returns (Some \<lparr>percent = 80, power_plugged = Some True\<rparr>))
        [Tick 100, Timeout (Returns (Some \<lparr>percent = 55.5, power_plugged = Some False\<rparr>)), Tick 400, Tick 700])) = Some 55"
    "group_state (pulse_animation_group (main 1920 (Returns (Some \<lparr>percent = 80, power_plugged = Some True\<rparr>))
        [Tick 100, Timeout (Returns (Some \<lparr>percent = 55.5, power_plugged = Some False\<rparr>)), Tick 400, Tick 700])) = Stopped"
    using w4 by simp_all
  have h: "reading_in_range (Returns (Some \<lparr>percent = 80, power_plugged = Some True\<rparr>))"
    "list_all event_in_range
        [Tick 100, Timeout (Returns (Some \<lparr>percent = 55.5, power_plugged = Some False\<rparr>)), Tick 400, Tick 700]"
    by simp_all
  show ?thesis
    using animation_completion_invariant [OF h, where sw = 1920 and e = 55] s h by simp
qed

text \<open>
  C7. Every render draws exactly two arcs on one rectangle, both starting at the top
  (90 degrees, in sixteenths): the background ring over the full 360 degrees with the grey
  pen, then the progress arc with the gradient pen and the span
  \<open>- percent / 100 * 360 * 16\<close>, which is negative, that is clockwise, for a positive percent.
\<close>

theorem render_arcs:
  "arcs (paintEvent self) = [(90 * 16, 360 * 16), (90 * 16, - animated_percent self / 100 * 360 * 16)]
   \<and> take 2 (drawn (paintEvent self)) =
        [DrawArc (arc_rect self) (90 * 16) (360 * 16)
           (SolidLine (SolidBrush (ColorRGBA 60 60 60 200)) 10 RoundCap),
         DrawArc (arc_rect self) (90 * 16) (- animated_percent self / 100 * 360 * 16)
           (SolidLine (GradientBrush (two_stops (topLeft (arc_rect self)) (bottomRight (arc_rect self))
                                        (color_pair self))) 10 RoundCap)]
   \<and> (0 < animated_percent self \<longrightarrow> snd (arcs (paintEvent self) ! 1) < 0)"
  by (simp add: arcs_paintEvent paintEvent_drawn)

theorem render_arcs_witness:
  "0 < animated_percent (main 1920 (Returns (Some \<lparr>percent = 75, power_plugged = Some False\<rparr>)) [Tick 1000])
   \<and> arcs (paintEvent (main 1920 (Returns (Some \<lparr>percent = 75, power_plugged = Some False\<rparr>)) [Tick 1000])) =
     [(1440, 5760), (1440, - 4320)]"
  using render_arcs [of "main 1920 (Returns (Some \<lparr>percent = 75, power_plugged = Some False\<rparr>)) [Tick 1000]"]
  by (simp add: run_simps)




text \<open>
  C9. A render reads the displayed percent, never the reading: replacing the animation
  object, the only place that keeps the target made from the last reading, leaves the render
  as it is, and the fill rectangle, the text and the colour pair are the stated functions of
  the displayed percent. Mid-animation they show values that were never read: 100 ms after a
  first reading of 80 (not plugged) the displayed percent is 21.68, so the render is amber,
  says 21% and fills 8.8888 of the 41 units, while the target is 80.
\<close>
theorem render_reads_animated_value:
  "paintEvent (self\<lparr>animation := a\<rparr>) = paintEvent self
   \<and> rounded_rects (paintEvent self) ! 2 =
       \<lparr>xp = 47, yp = 78 - 41 * (animated_percent self / 100), rw = 26,
        rh = 41 * (animated_percent self / 100)\<rparr>
   \<and> texts (paintEvent self) = [str_int (py_int (animated_percent self)) @ ''%'']
   \<and> (\<not> truthy (plugged self) \<longrightarrow>
        gradient_colors (paintEvent self) =
          (let pair = (if animated_percent self < 20 then [ColorName ''#F44336'', ColorName ''#D32F2F'']
                       else if animated_percent self < 50 then [ColorName ''#FFC107'', ColorName ''#FFA000'']
                       else [ColorName ''#00E5FF'', ColorName ''#00B8D4''])
           in [pair, pair]))
   \<and> endValue (animation (main 1920 (Returns (Some \<lparr>percent = 80, power_plugged = Some False\<rparr>)) [Tick 100])) = Some 80
   \<and> animated_percent (main 1920 (Returns (Some \<lparr>percent = 80, power_plugged = Some False\<rparr>)) [Tick 100]) = 21.68
   \<and> texts (paintEvent (main 1920 (Returns (Some \<lparr>percent = 80, power_plugged = Some False\<rparr>)) [Tick 100])) = [''21%'']
   \<and> gradient_colors (paintEvent (main 1920 (Returns (Some \<lparr>percent = 80, power_plugged = Some False\<rparr>)) [Tick 100])) =
       [[ColorName ''#FFC107'', ColorName ''#FFA000''], [ColorName ''#FFC107'', ColorName ''#FFA000'']]
   \<and> rh (rounded_rects (paintEvent (main 1920 (Returns (Some \<lparr>percent = 80, power_plugged = Some False\<rparr>)) [Tick 100])) ! 2) = 8.8888"
proof -
  have m: "animated_percent (main 1920 (Returns (Some \<lparr>percent = 80, power_plugged = Some False\<rparr>)) [Tick 100]) = 21.68"
          "endValue (animation (main 1920 (Returns (Some \<lparr>percent = 80, power_plugged = Some False\<rparr>)) [Tick 100])) = Some 80"
          "plugged (main 1920 (Returns (Some \<lparr>percent = 80, power_plugged = Some False\<rparr>)) [Tick 100]) = Some False"
    by (simp_all add: run_simps)
  have p: "paintEvent (self\<lparr>animation := a\<rparr>) = paintEvent self"
    by (rule paintEvent_cong) simp_all
  have t: "str_int (py_int (542 / 25)) = ''21''"
    by (simp add: py_int_def str_int_def digit_char_def)
  show ?thesis
    by (simp add: p m t rounded_rects_paintEvent texts_paintEvent gradient_colors_paintEvent
          color_pair_def fill_rect_of_def Let_def truthy_def)
qed


theorem render_reads_animated_value_witness:
  "\<not> truthy (plugged (main 1920 (Returns (Some \<lparr>percent = 80, power_plugged = Some False\<rparr>)) [Tick 100]))
   \<and> paintEvent ((main 1920 (Returns (Some \<lparr>percent = 80, power_plugged = Some False\<rparr>)) [Tick 100])
         \<lparr>animation := QPropertyAnimation_new\<rparr>) =
       paintEvent (main 1920 (Returns (Some \<lparr>percent = 80, power_plugged = Some False\<rparr>)) [Tick 100])
   \<and> gradient_colors (paintEvent (main 1920 (Returns (Some \<lparr>percent = 80, power_plugged = Some False\<rparr>)) [Tick 1000])) =
       [[ColorName ''#00E5FF'', ColorName ''#00B8D4''], [ColorName ''#00E5FF'', ColorName ''#00B8D4'']]
   \<and> texts (paintEvent (main 1920 (Returns (Some \<lparr>percent = 80, power_plugged = Some False\<rparr>)) [Tick 1000])) = [''80%'']"
  using render_reads_animated_value
          [where self = "main 1920 (Returns (Some \<lparr>percent = 80, power_plugged = Some False\<rparr>)) [Tick 100]"
             and a = QPropertyAnimation_new]
        render_reads_animated_value
          [where self = "main 1920 (Returns (Some \<lparr>percent = 80, power_plugged = Some False\<rparr>)) [Tick 1000]"
             and a = QPropertyAnimation_new]
  by (simp add: run_simps str_int_def digit_char_def)

text \<open>
  C10. The target of the percent animation is \<open>int(battery.percent)\<close>, the reading
  truncated, and the text drawn is \<open>int(percent)\<close> of the displayed value followed by a
  percent sign. So the displayed percent ends at the truncation of the reading, which
  differs from a fractional reading: for a reading of 0 or more it is the whole number
  just below it, and 99.9 ends at 99, shown as 99%.
\<close>
theorem percent_is_truncated:
  "endValue (animation (update_battery_info (Returns (Some b)) self)) =
     Some (real_of_int (py_int (percent b)))
   \<and> texts (paintEvent self) = [str_int (py_int (animated_percent self)) @ ''%'']
   \<and> (ds \<noteq> [] \<and> duration (animation self) \<le> sum_list ds \<longrightarrow>
        animated_percent (fold dispatch (map Tick ds) (update_battery_info (Returns (Some b)) self)) =
          real_of_int (py_int (percent b)))
   \<and> (percent b \<notin> \<int> \<longrightarrow> real_of_int (py_int (percent b)) \<noteq> percent b)
   \<and> (0 \<le> percent b \<longrightarrow>
        real_of_int (py_int (percent b)) \<le> percent b \<and> percent b < real_of_int (py_int (percent b)) + 1)"
proof -
  have "real_of_int (py_int (percent b)) \<noteq> percent b" if "percent b \<notin> \<int>"
    using that Ints_of_int by metis
  then show ?thesis
    using poll_then_ticks[of ds self "Some b"] py_int_nonneg[of "percent b"]
    by (simp add: poll_eq texts_paintEvent target_of_def)
qed

theorem percent_is_truncated_witness:
  "(99.9 :: real) \<notin> \<int>
   \<and> endValue (animation (update_battery_info
        (Returns (Some \<lparr>percent = 99.9, power_plugged = Some False\<rparr>)) (main 1920 (Returns None) []))) = Some 99
   \<and> animated_percent (fold dispatch (map Tick [400, 600]) (update_battery_info
        (Returns (Some \<lparr>percent = 99.9, power_plugged = Some False\<rparr>)) (main 1920 (Returns None) []))) = 99
   \<and> texts (paintEvent (main 1920 (Returns (Some \<lparr>percent = 99.9, power_plugged = Some False\<rparr>))
        [Tick 1000])) = [''99%'']"
  using percent_is_truncated
          [where b = "\<lparr>percent = 99.9, power_plugged = Some False\<rparr>"
             and self = "main 1920 (Returns None) []" and ds = "[400, 600]"]
        percent_is_truncated
          [where b = "\<lparr>percent = 99.9, power_plugged = Some False\<rparr>"
             and self = "main 1920 (Returns (Some \<lparr>percent = 99.9, power_plugged = Some False\<rparr>)) [Tick 1000]"
             and ds = "[]"]
        fractional_reading
  by (simp add: run_simps str_int_def digit_char_def)

end
